theory Spec2Isabelle
  imports Main "HOL-Library.Sublist" "HOL-Library.AList"
begin

section \<open>Path-constraint solving helpers of mythril/analysis/solver.py\<close>

text \<open>
  The module solves a path condition with an optimising SMT session, memoises the
  answers, and turns a model into a concrete transaction sequence. Every function of
  the module is embedded below under its own name (a leading underscore is dropped,
  since a HOL name cannot start with one). Exceptions are values of the type
  \<open>error\<close>; a function that can raise returns \<open>error + 'a\<close>.
\<close>

datatype error = UnsatError | IndexError | TypeError | ValueError

subsection \<open>Symbolic expressions and models\<close>

text \<open>
  Modelled from the spec: the expression classes of mythril.laser.smt (BitVec, Bool,
  Array, \<open>symbol_factory.BitVecVal\<close>, \<open>UGE\<close>) are imported by the module and
  are not part of it. A bit-vector expression is a literal of a given width, a symbol, or
  the value of an array at an index (\<open>starting_balances[address]\<close>); a boolean
  expression compares two bit-vectors as unsigned numbers. \<open>UGE a b\<close> is the
  unsigned \<open>a \<ge> b\<close>.
\<close>

datatype array = Array string

datatype bitvec =
    BitVecVal int nat
  | BitVecSym string nat
  | Select array bitvec

datatype bool_expr =
    UGE bitvec bitvec
  | UGT bitvec bitvec
  | Eq bitvec bitvec

text \<open>
  A constraint set holds Python booleans next to symbolic expressions
  (\<open>Union[bool, Bool]\<close>); \<open>type(constraint) == bool\<close> is the test
  \<open>is_PyBool\<close>.
\<close>

datatype constraint = PyBool bool | Expr bool_expr

fun is_PyBool :: "constraint \<Rightarrow> bool" where
  "is_PyBool (PyBool b) = True"
| "is_PyBool (Expr e) = False"

text \<open>
  Modelled from the spec: a solver model is an evaluator of expressions. With model
  completion every symbol and every array cell has a value, so the interpretation of
  symbols and arrays is total. The inverse hash functions are evaluated without model
  completion: \<open>inverse_interp m size digest\<close> is \<open>None\<close> where
  \<open>model.eval(inverse(digest)).as_long()\<close> raises AttributeError.
\<close>

record model =
  bitvec_interp :: "string \<Rightarrow> int"
  array_interp :: "string \<Rightarrow> int \<Rightarrow> int"
  inverse_interp :: "nat \<Rightarrow> int \<Rightarrow> int option"

text \<open>\<open>model.eval(e.raw, model_completion=True).as_long()\<close>: an unsigned value.\<close>

fun model_eval :: "model \<Rightarrow> bitvec \<Rightarrow> int" where
  "model_eval m (BitVecVal v n) = v mod 2 ^ n"
| "model_eval m (BitVecSym s n) = bitvec_interp m s mod 2 ^ n"
| "model_eval m (Select (Array a) i) = array_interp m a (model_eval m i) mod 2 ^ 256"

fun holds :: "model \<Rightarrow> bool_expr \<Rightarrow> bool" where
  "holds m (UGE a b) = (model_eval m b \<le> model_eval m a)"
| "holds m (UGT a b) = (model_eval m b < model_eval m a)"
| "holds m (Eq a b) = (model_eval m a = model_eval m b)"

fun satisfies :: "model \<Rightarrow> constraint \<Rightarrow> bool" where
  "satisfies m (PyBool b) = b"
| "satisfies m (Expr e) = holds m e"

text \<open>The property \<open>value\<close> of a BitVec: the number of a literal, None of a symbolic one.\<close>

fun bv_value :: "bitvec \<Rightarrow> int option" where
  "bv_value (BitVecVal v n) = Some (v mod 2 ^ n)"
| "bv_value (BitVecSym s n) = None"
| "bv_value (Select a i) = None"

subsection \<open>The optimising solver session\<close>

text \<open>
  Modelled from the spec: \<open>Optimize\<close> of mythril.laser.smt wraps the external
  solver. A session records the timeout, the assertions and the objectives it was given;
  \<open>check\<close> and \<open>model\<close> are the solver's answers and are parameters of the
  development (the fields \<open>check\<close> and \<open>z3_model\<close> of the environment), as
  are the configured solver timeout and the remaining time of the global budget.
\<close>

datatype check_result = sat | unsat | unknown

record optimize =
  timeout :: "int option"
  assertions :: "constraint list"
  minimize_objectives :: "bitvec list"
  maximize_objectives :: "bitvec list"

definition Optimize :: optimize where
  "Optimize = \<lparr>timeout = None, assertions = [], minimize_objectives = [],
     maximize_objectives = []\<rparr>"

definition set_timeout :: "optimize \<Rightarrow> int \<Rightarrow> optimize" where
  "set_timeout s t = s\<lparr>timeout := Some t\<rparr>"

definition add :: "optimize \<Rightarrow> constraint \<Rightarrow> optimize" where
  "add s c = s\<lparr>assertions := assertions s @ [c]\<rparr>"

definition minimize :: "optimize \<Rightarrow> bitvec \<Rightarrow> optimize" where
  "minimize s e = s\<lparr>minimize_objectives := minimize_objectives s @ [e]\<rparr>"

definition maximize :: "optimize \<Rightarrow> bitvec \<Rightarrow> optimize" where
  "maximize s e = s\<lparr>maximize_objectives := maximize_objectives s @ [e]\<rparr>"

record solver_env =
  solver_timeout :: int
  time_remaining :: int
  check :: "optimize \<Rightarrow> check_result"
  z3_model :: "optimize \<Rightarrow> model"

subsection \<open>get_model\<close>

text \<open>
  The body of \<open>get_model\<close> (what Python calls \<open>get_model.__wrapped__\<close>). The
  second component of the result is the session \<open>check\<close> was called on, None when
  the body raised before it reached the solver.
\<close>

definition get_model_wrapped ::
  "solver_env \<Rightarrow> constraint list \<Rightarrow> bitvec list \<Rightarrow> bitvec list \<Rightarrow> bool
     \<Rightarrow> (error + model) \<times> optimize option" where
  "get_model_wrapped env constraints minimize_list maximize_list enforce_execution_time =
     (let s = Optimize;
          timeout = solver_timeout env;
          timeout = (if enforce_execution_time
                     then min timeout (time_remaining env - 500) else timeout)
      in if enforce_execution_time \<and> timeout \<le> 0 then (Inl UnsatError, None)
         else
           let s = set_timeout s timeout
           in if list_ex (\<lambda>c. c = PyBool False) constraints then (Inl UnsatError, None)
              else
                let constraints = filter (\<lambda>c. \<not> is_PyBool c) constraints;
                    s = foldl add s constraints;
                    s = foldl minimize s minimize_list;
                    s = foldl maximize s maximize_list;
                    result = check env s
                in if result = sat then (Inr (z3_model env s), Some s)
                   else (Inl UnsatError, Some s))"

text \<open>
  The decorator \<open>lru_cache(maxsize=2 ** 23)\<close>. The cache is a list of entries, the
  most recently used first. A hit returns the stored value and moves the entry to the
  front; a miss runs the body and stores the value it returns; a body that raises
  stores nothing. The key is the tuple of the arguments, compared by content (HOL
  equality), for two calls that pass their arguments in the same form. The state also
  keeps the log of the sessions handed to the solver.
\<close>

type_synonym cache_key = "constraint list \<times> bitvec list \<times> bitvec list \<times> bool"

record solver_state =
  cache :: "(cache_key \<times> model) list"
  solver_log :: "optimize list"

definition maxsize :: nat where
  "maxsize = 2 ^ 23"

definition log_session :: "optimize option \<Rightarrow> optimize list \<Rightarrow> optimize list" where
  "log_session so lg = (case so of None \<Rightarrow> lg | Some s \<Rightarrow> lg @ [s])"

definition get_model ::
  "solver_env \<Rightarrow> solver_state \<Rightarrow> constraint list \<Rightarrow> bitvec list \<Rightarrow> bitvec list \<Rightarrow> bool
     \<Rightarrow> (error + model) \<times> solver_state" where
  "get_model env st constraints minimize_list maximize_list enforce_execution_time =
     (let key = (constraints, minimize_list, maximize_list, enforce_execution_time)
      in case map_of (cache st) key of
           Some m \<Rightarrow>
             (Inr m, st\<lparr>cache := (key, m) # filter (\<lambda>e. fst e \<noteq> key) (cache st)\<rparr>)
         | None \<Rightarrow>
             (case get_model_wrapped env constraints minimize_list maximize_list
                     enforce_execution_time of
                (Inl e, so) \<Rightarrow> (Inl e, st\<lparr>solver_log := log_session so (solver_log st)\<rparr>)
              | (Inr m, so) \<Rightarrow>
                  (Inr m, st\<lparr>cache := take maxsize ((key, m) # cache st),
                              solver_log := log_session so (solver_log st)\<rparr>)))"

definition empty_state :: solver_state where
  "empty_state = \<lparr>cache = [], solver_log = []\<rparr>"

section \<open>Concrete transaction sequences\<close>

subsection \<open>Python strings and numbers\<close>

text \<open>
  The built-in operations the module uses on strings and integers. \<open>hex_digits n\<close>
  is \<open>"%x" % n\<close> for \<open>n \<ge> 0\<close>: lower-case digits, most significant first,
  no leading zero.
\<close>

definition hex_digit :: "nat \<Rightarrow> char" where
  "hex_digit d = ''0123456789abcdef'' ! d"

function hex_digits :: "nat \<Rightarrow> string" where
  "hex_digits n =
     (if n < 16 then [hex_digit n] else hex_digits (n div 16) @ [hex_digit (n mod 16)])"
  by pat_completeness auto
termination
  by (relation "measure id") auto

declare hex_digits.simps [simp del]

text \<open>\<open>"%x" % i\<close> and \<open>hex(i)\<close>: a negative number keeps its sign in front.\<close>

definition format_x :: "int \<Rightarrow> string" where
  "format_x i = (if i < 0 then ''-'' @ hex_digits (nat (- i)) else hex_digits (nat i))"

definition hex :: "int \<Rightarrow> string" where
  "hex i = (if i < 0 then ''-0x'' @ hex_digits (nat (- i)) else ''0x'' @ hex_digits (nat i))"

text \<open>\<open>s.zfill(width)\<close>: zeros go after a leading sign.\<close>

definition zfill :: "nat \<Rightarrow> string \<Rightarrow> string" where
  "zfill width s =
     (case s of
        [] \<Rightarrow> replicate width CHR ''0''
      | c # rest \<Rightarrow>
          if c = CHR ''+'' \<or> c = CHR ''-''
          then c # replicate (width - length s) CHR ''0'' @ rest
          else replicate (width - length s) CHR ''0'' @ s)"

text \<open>\<open>sub in s\<close> on strings.\<close>

fun contains :: "string \<Rightarrow> string \<Rightarrow> bool" where
  "contains sub [] = (sub = [])"
| "contains sub (c # s) = (prefix sub (c # s) \<or> contains sub s)"

text \<open>
  \<open>s.replace(old, new)\<close>: the occurrences of \<open>old\<close> are taken from the left and
  do not overlap; an empty \<open>old\<close> matches before every character and at the end.
\<close>

function replace :: "string \<Rightarrow> string \<Rightarrow> string \<Rightarrow> string" where
  "replace old new s =
     (if old = [] then new @ concat (map (\<lambda>c. c # new) s)
      else if s = [] then []
      else if prefix old s then new @ replace old new (drop (length old) s)
      else hd s # replace old new (tl s))"
  by pat_completeness auto
termination
  by (relation "measure (\<lambda>(old, new, s). length s)") auto

declare replace.simps [simp del]

text \<open>\<open>range(start, stop, step)\<close> for a positive step.\<close>

definition range_step :: "nat \<Rightarrow> nat \<Rightarrow> nat \<Rightarrow> nat list" where
  "range_step start stop step =
     map (\<lambda>k. start + k * step) [0..<(stop - start + step - 1) div step]"

text \<open>
  \<open>int(s, 16)\<close>. The model is exact on strings of the characters 0-9, a-f and A-F,
  the only ones a hexadecimal payload holds, and on the empty string (ValueError). On a
  string with any other character the model answers ValueError; Python does so too
  unless the string is a number written with a sign, blanks around it, a 0x prefix or
  single underscores between its digits.
\<close>

definition hex_digit_value :: "char \<Rightarrow> nat option" where
  "hex_digit_value c =
     (let n = (of_char c :: nat)
      in if 48 \<le> n \<and> n \<le> 57 then Some (n - 48)
         else if 97 \<le> n \<and> n \<le> 102 then Some (n - 87)
         else if 65 \<le> n \<and> n \<le> 70 then Some (n - 55)
         else None)"

fun int16_from :: "int \<Rightarrow> string \<Rightarrow> error + int" where
  "int16_from acc [] = Inr acc"
| "int16_from acc (c # s) =
     (case hex_digit_value c of
        None \<Rightarrow> Inl ValueError
      | Some d \<Rightarrow> int16_from (16 * acc + int d) s)"

definition int16 :: "string \<Rightarrow> error + int" where
  "int16 s = (if s = [] then Inl ValueError else int16_from 0 s)"

subsection \<open>Transactions, accounts and the world state\<close>

text \<open>
  Modelled from the spec: the classes of the symbolic execution engine are not part of
  the module; each is a record of the attributes the module reads.
  \<open>concrete (call_data t) m\<close> is \<open>t.call_data.concrete(m)\<close>, the bytes of the call
  data under a model, and \<open>storage a\<close> is \<open>str(a.storage)\<close>. The dictionary
  \<open>accounts\<close> is the list of its items in insertion order. The two transaction
  classes are the two constructors of \<open>transaction\<close>; only a contract creation
  carries code. \<open>global_state.world_state.transaction_sequence\<close> is the field
  \<open>transaction_sequence\<close> of the global state.
\<close>

record disassembly =
  bytecode :: string

record account =
  address :: bitvec
  nonce :: int
  code :: disassembly
  storage :: string

record world_state =
  accounts :: "(int \<times> account) list"
  starting_balances :: array

record calldata =
  calldatasize :: bitvec
  concrete :: "model \<Rightarrow> int list"

record base_transaction =
  tx_world_state :: world_state
  callee_account :: account
  caller :: bitvec
  call_data :: calldata
  call_value :: bitvec

datatype transaction =
    MessageCallTransaction base_transaction
  | ContractCreationTransaction base_transaction disassembly

fun base :: "transaction \<Rightarrow> base_transaction" where
  "base (MessageCallTransaction b) = b"
| "base (ContractCreationTransaction b c) = b"

record global_state =
  world_state :: world_state
  transaction_sequence :: "transaction list"

subsection \<open>Constraint sets as heap objects\<close>

text \<open>
  Modelled from the spec: the class \<open>Constraints\<close> is a list of constraints and is
  not part of the module. The module appends to such a list in place and copies it, so
  constraint sets live in a heap and are passed by reference: \<open>copy\<close> allocates a new
  list with the same elements, \<open>append\<close> changes the list at the given reference.
\<close>

record heap =
  cells :: "nat \<Rightarrow> constraint list"
  next_ref :: nat

definition constraints_copy :: "heap \<Rightarrow> nat \<Rightarrow> nat \<times> heap" where
  "constraints_copy h r =
     (next_ref h, h\<lparr>cells := (cells h)(next_ref h := cells h r), next_ref := Suc (next_ref h)\<rparr>)"

definition constraints_append :: "heap \<Rightarrow> nat \<Rightarrow> constraint \<Rightarrow> heap" where
  "constraints_append h r c = h\<lparr>cells := (cells h)(r := cells h r @ [c])\<rparr>"

subsection \<open>set_minimisation_constraints\<close>

text \<open>
  The first loop of \<open>_set_minimisation_constraints\<close>, over the transactions, and the
  second, over \<open>world_state.accounts.values()\<close>. \<open>constraints\<close> is a reference;
  \<open>minimize_list\<close> is the list the caller passes, returned as a tuple.
\<close>

fun minimisation_transactions ::
  "heap \<Rightarrow> nat \<Rightarrow> bitvec list \<Rightarrow> int \<Rightarrow> world_state \<Rightarrow> transaction list
     \<Rightarrow> heap \<times> bitvec list" where
  "minimisation_transactions h constraints minimize_list max_size ws [] = (h, minimize_list)"
| "minimisation_transactions h constraints minimize_list max_size ws (transaction # rest) =
     (let max_calldata_size = BitVecVal max_size 256;
          h = constraints_append h constraints
                (Expr (UGE max_calldata_size (calldatasize (call_data (base transaction)))));
          minimize_list = minimize_list @ [calldatasize (call_data (base transaction))];
          minimize_list = minimize_list @ [call_value (base transaction)];
          h = constraints_append h constraints
                (Expr (UGE (BitVecVal 1000000000000000000000 256)
                           (Select (starting_balances ws) (caller (base transaction)))))
      in minimisation_transactions h constraints minimize_list max_size ws rest)"

fun minimisation_accounts :: "heap \<Rightarrow> nat \<Rightarrow> world_state \<Rightarrow> account list \<Rightarrow> heap" where
  "minimisation_accounts h constraints ws [] = h"
| "minimisation_accounts h constraints ws (account # rest) =
     (let h = constraints_append h constraints
                (Expr (UGE (BitVecVal 100000000000000000000 256)
                           (Select (starting_balances ws) (address account))))
      in minimisation_accounts h constraints ws rest)"

definition set_minimisation_constraints ::
  "heap \<Rightarrow> transaction list \<Rightarrow> nat \<Rightarrow> bitvec list \<Rightarrow> int \<Rightarrow> world_state
     \<Rightarrow> heap \<times> nat \<times> bitvec list" where
  "set_minimisation_constraints h transactions constraints minimize_list max_size ws =
     (let (h, minimize_list) =
            minimisation_transactions h constraints minimize_list max_size ws transactions;
          h = minimisation_accounts h constraints ws (map snd (accounts ws))
      in (h, constraints, minimize_list))"

subsection \<open>The produced records\<close>

text \<open>
  A concrete transaction is the dictionary with the keys input, value, origin and
  address; a concrete account is the dictionary with the keys nonce, code, storage and
  balance; the result of the extraction has the keys initialState and steps.
\<close>

record concrete_transaction =
  tx_input :: string
  tx_value :: string
  tx_origin :: string
  tx_address :: string

record concrete_account =
  acc_nonce :: int
  acc_code :: string
  acc_storage :: string
  acc_balance :: string

record concrete_state =
  state_accounts :: "(string \<times> concrete_account) list"

record transaction_sequence_result =
  initialState :: concrete_state
  steps :: "concrete_transaction list"

subsection \<open>get_concrete_transaction and get_concrete_state\<close>

text \<open>
  \<open>_get_concrete_transaction\<close>. \<open>hex(None)\<close> raises TypeError when the callee's
  address is symbolic. The bytes of the call data are rendered by the list
  comprehension of the source, \<open>byte_hex\<close>.
\<close>

definition byte_hex :: "int \<Rightarrow> string" where
  "byte_hex b = (if length (hex b) mod 2 = 0 then drop 2 (hex b) else ''0'' @ drop 2 (hex b))"

definition get_concrete_transaction :: "model \<Rightarrow> transaction \<Rightarrow> error + concrete_transaction" where
  "get_concrete_transaction m transaction =
     (case bv_value (address (callee_account (base transaction))) of
        None \<Rightarrow> Inl TypeError
      | Some a \<Rightarrow>
          let addr = hex a;
              val = model_eval m (call_value (base transaction));
              caller_str = ''0x'' @ zfill 40 (format_x (model_eval m (caller (base transaction))));
              input_str = '''';
              (addr, input_str) =
                (case transaction of
                   ContractCreationTransaction b c \<Rightarrow> ('''', input_str @ bytecode c)
                 | MessageCallTransaction b \<Rightarrow> (addr, input_str));
              input_str = input_str @ concat (map byte_hex (concrete (call_data (base transaction)) m))
          in Inr \<lparr>tx_input = ''0x'' @ input_str, tx_value = ''0x'' @ format_x val,
                  tx_origin = caller_str, tx_address = addr\<rparr>)"

text \<open>
  \<open>_get_concrete_state\<close>. Assigning to a key of a dictionary replaces the value of a
  key that is there and adds a new key at the end: \<open>AList.update\<close>.
\<close>

definition get_concrete_state :: "(int \<times> account) list \<Rightarrow> (int \<times> int) list \<Rightarrow> concrete_state" where
  "get_concrete_state initial_accounts min_price_dict =
     \<lparr>state_accounts =
        foldl (\<lambda>accs (addr, acct).
                 AList.update (hex addr)
                   \<lparr>acc_nonce = nonce acct, acc_code = bytecode (code acct),
                    acc_storage = storage acct,
                    acc_balance = hex (case map_of min_price_dict addr of
                                         None \<Rightarrow> 0 | Some v \<Rightarrow> v)\<rparr>
                   accs)
              [] initial_accounts\<rparr>"

subsection \<open>replace_with_actual_sha\<close>

text \<open>
  Modelled from the spec: the hash-function registry (keccak_function_manager) is not
  part of the module. \<open>store_function\<close> lists the registered input widths in the
  order the dictionary yields them, \<open>hash_matcher\<close> is the marker string, and
  \<open>digest\<close> is the forward hash of a concrete input as a number;
  \<open>find_concrete_keccak\<close> returns it as a literal of 256 bits.
\<close>

record keccak_function_manager =
  store_function :: "nat list"
  hash_matcher :: string
  digest :: "bitvec \<Rightarrow> int"

definition find_concrete_keccak :: "keccak_function_manager \<Rightarrow> bitvec \<Rightarrow> bitvec" where
  "find_concrete_keccak kfm data = BitVecVal (digest kfm data) 256"

text \<open>
  The loop over the registered widths for one window: \<open>acc\<close> is the variable
  \<open>input_\<close> of the source. A width whose evaluation raises AttributeError is
  skipped; the loop stops at the first candidate whose hexadecimal form occurs in the input of some
  transaction, and otherwise ends with the last candidate it obtained.
\<close>

fun find_preimage ::
  "model \<Rightarrow> concrete_transaction list \<Rightarrow> bitvec \<Rightarrow> bitvec option \<Rightarrow> nat list
     \<Rightarrow> error + bitvec option" where
  "find_preimage m txs find_input acc [] = Inr acc"
| "find_preimage m txs find_input acc (width # widths) =
     (case inverse_interp m width (model_eval m find_input) of
        None \<Rightarrow> find_preimage m txs find_input acc widths
      | Some v \<Rightarrow>
          let input_bv = BitVecVal v width
          in case bv_value input_bv of
               None \<Rightarrow> Inl TypeError
             | Some n \<Rightarrow>
                 let hex_input = drop 2 (hex n);
                     found = list_ex (\<lambda>new_tx. contains hex_input (tx_input new_tx)) txs
                 in if found then Inr (Some input_bv)
                    else find_preimage m txs find_input (Some input_bv) widths)"

text \<open>
  Lines 174 and 175 of the source: a digest shorter than 66 characters is padded with
  zeros after the prefix 0x; \<open>"0" * n\<close> is the empty string for a negative n.
\<close>

definition pad_hex_keccak :: "string \<Rightarrow> string" where
  "pad_hex_keccak hex_keccak =
     (if length hex_keccak \<noteq> 66
      then ''0x'' @ replicate (66 - length hex_keccak) CHR ''0'' @ drop 2 hex_keccak
      else hex_keccak)"

text \<open>
  The body of the loop over the windows of the transaction at index \<open>j\<close>, for the
  window that starts at \<open>i\<close>. The list of transactions is the state: the records
  are changed in place, and the search for a candidate reads all of them.
\<close>

definition window_step ::
  "keccak_function_manager \<Rightarrow> model \<Rightarrow> nat \<Rightarrow> nat \<Rightarrow> concrete_transaction list \<Rightarrow> nat
     \<Rightarrow> error + concrete_transaction list" where
  "window_step kfm m j s_index txs i =
     (let inp = tx_input (txs ! j);
          data_slice = take 64 (drop i inp)
      in if \<not> contains (hash_matcher kfm) data_slice \<or> length data_slice \<noteq> 64 then Inr txs
         else
           case int16 data_slice of
             Inl e \<Rightarrow> Inl e
           | Inr n \<Rightarrow>
               let find_input = BitVecVal n 256
               in case find_preimage m txs find_input None (store_function kfm) of
                    Inl e \<Rightarrow> Inl e
                  | Inr None \<Rightarrow> Inr txs
                  | Inr (Some input_bv) \<Rightarrow>
                      let keccak = find_concrete_keccak kfm input_bv
                      in case bv_value keccak of
                           None \<Rightarrow> Inl TypeError
                         | Some k \<Rightarrow>
                             let hex_keccak = hex k;
                                 hex_keccak = pad_hex_keccak hex_keccak;
                                 new_input =
                                   take s_index inp @
                                   replace (take 64 (drop i inp)) (drop 2 hex_keccak)
                                     (drop s_index inp)
                             in Inr (txs[j := (txs ! j)\<lparr>tx_input := new_input\<rparr>]))"

fun windows_loop ::
  "keccak_function_manager \<Rightarrow> model \<Rightarrow> nat \<Rightarrow> nat \<Rightarrow> concrete_transaction list \<Rightarrow> nat list
     \<Rightarrow> error + concrete_transaction list" where
  "windows_loop kfm m j s_index txs [] = Inr txs"
| "windows_loop kfm m j s_index txs (i # rest) =
     (case window_step kfm m j s_index txs i of
        Inl e \<Rightarrow> Inl e
      | Inr txs' \<Rightarrow> windows_loop kfm m j s_index txs' rest)"

text \<open>
  The body of the loop over the transactions, for the transaction at index \<open>j\<close>:
  the start offset \<open>s_index\<close> and the range of the windows are computed once, from
  the input as it is when the transaction is reached.
\<close>

definition start_index :: "disassembly option \<Rightarrow> string \<Rightarrow> nat" where
  "start_index code_opt inp =
     (case code_opt of
        Some c \<Rightarrow> if contains (bytecode c) inp then length (bytecode c) + 10 else 10
      | None \<Rightarrow> 10)"

definition transaction_step ::
  "keccak_function_manager \<Rightarrow> model \<Rightarrow> disassembly option \<Rightarrow> concrete_transaction list \<Rightarrow> nat
     \<Rightarrow> error + concrete_transaction list" where
  "transaction_step kfm m code_opt txs j =
     (let inp = tx_input (txs ! j)
      in if \<not> contains (hash_matcher kfm) inp then Inr txs
         else
           let s_index = start_index code_opt inp
           in windows_loop kfm m j s_index txs (range_step s_index (length inp) 64))"

fun transactions_loop ::
  "keccak_function_manager \<Rightarrow> model \<Rightarrow> disassembly option \<Rightarrow> concrete_transaction list
     \<Rightarrow> nat list \<Rightarrow> error + concrete_transaction list" where
  "transactions_loop kfm m code_opt txs [] = Inr txs"
| "transactions_loop kfm m code_opt txs (j # rest) =
     (case transaction_step kfm m code_opt txs j of
        Inl e \<Rightarrow> Inl e
      | Inr txs' \<Rightarrow> transactions_loop kfm m code_opt txs' rest)"

definition replace_with_actual_sha ::
  "keccak_function_manager \<Rightarrow> concrete_transaction list \<Rightarrow> model \<Rightarrow> disassembly option
     \<Rightarrow> error + concrete_transaction list" where
  "replace_with_actual_sha kfm concrete_transactions m code_opt =
     transactions_loop kfm m code_opt concrete_transactions [0..<length concrete_transactions]"

subsection \<open>get_transaction_sequence\<close>

fun concrete_transactions_of :: "model \<Rightarrow> transaction list \<Rightarrow> error + concrete_transaction list" where
  "concrete_transactions_of m [] = Inr []"
| "concrete_transactions_of m (transaction # rest) =
     (case get_concrete_transaction m transaction of
        Inl e \<Rightarrow> Inl e
      | Inr concrete_tx \<Rightarrow>
          (case concrete_transactions_of m rest of
             Inl e \<Rightarrow> Inl e
           | Inr cts \<Rightarrow> Inr (concrete_tx # cts)))"

text \<open>
  \<open>get_transaction_sequence\<close>. The caller's constraint set is the reference
  \<open>constraints\<close> into the heap; the solver state carries the cache of
  \<open>get_model\<close>, which is called with the minimize list as keyword argument and the
  defaults for the other two. Indexing the empty transaction sequence raises
  IndexError.
\<close>

definition get_transaction_sequence ::
  "keccak_function_manager \<Rightarrow> solver_env \<Rightarrow> solver_state \<Rightarrow> heap \<Rightarrow> global_state \<Rightarrow> nat
     \<Rightarrow> (error + transaction_sequence_result) \<times> solver_state \<times> heap" where
  "get_transaction_sequence kfm env st h gs constraints =
     (let transactions = transaction_sequence gs;
          (copy_ref, h) = constraints_copy h constraints;
          (h, tx_constraints, minimize_list) =
             set_minimisation_constraints h transactions copy_ref [] 5000 (world_state gs);
          (r, st) = get_model env st (cells h tx_constraints) minimize_list [] True
      in case r of
           Inl e \<Rightarrow> (Inl e, st, h)
         | Inr m \<Rightarrow>
             (case transactions of
                [] \<Rightarrow> (Inl IndexError, st, h)
              | first # others \<Rightarrow>
                  let initial_world_state = tx_world_state (base first);
                      initial_accounts = accounts initial_world_state
                  in case concrete_transactions_of m transactions of
                       Inl e \<Rightarrow> (Inl e, st, h)
                     | Inr concrete_transactions \<Rightarrow>
                         let min_price_dict =
                               foldl (\<lambda>d addr.
                                        AList.update addr
                                          (model_eval m
                                             (Select (starting_balances initial_world_state)
                                                     (BitVecVal addr 256))) d)
                                     [] (map fst initial_accounts);
                             concrete_initial_state =
                               get_concrete_state initial_accounts min_price_dict;
                             code_opt =
                               (case first of
                                  ContractCreationTransaction b c \<Rightarrow> Some c
                                | MessageCallTransaction b \<Rightarrow> None)
                         in case replace_with_actual_sha kfm concrete_transactions m code_opt of
                              Inl e \<Rightarrow> (Inl e, st, h)
                            | Inr resolved \<Rightarrow>
                                (Inr \<lparr>initialState = concrete_initial_state, steps = resolved\<rparr>,
                                 st, h)))"

section \<open>Notions used to state the properties\<close>

text \<open>
  The states of the memoisation cache that calls of \<open>get_model\<close> can produce,
  starting from the empty cache. The environment may differ from call to call: time
  passes, and the solver need not answer twice alike.
\<close>

inductive reachable :: "solver_state \<Rightarrow> bool" where
  reachable_empty: "reachable empty_state"
| reachable_call: "reachable st \<Longrightarrow> reachable (snd (get_model env st cs mn mx flag))"

definition cache_keys_ok :: "solver_state \<Rightarrow> bool" where
  "cache_keys_ok st = (\<forall>e \<in> set (cache st). PyBool False \<notin> set (fst (fst e)))"

text \<open>
  A solver is sound when the model it reports after the answer sat satisfies every
  assertion of the session.
\<close>

definition sound_solver :: "solver_env \<Rightarrow> bool" where
  "sound_solver env =
     (\<forall>s. check env s = sat \<longrightarrow> list_all (satisfies (z3_model env s)) (assertions s))"

text \<open>
  The constraints \<open>_set_minimisation_constraints\<close> appends for one transaction and
  for one account.
\<close>

definition transaction_bounds :: "int \<Rightarrow> world_state \<Rightarrow> transaction \<Rightarrow> constraint list" where
  "transaction_bounds max_size ws t =
     [Expr (UGE (BitVecVal max_size 256) (calldatasize (call_data (base t)))),
      Expr (UGE (BitVecVal 1000000000000000000000 256)
                (Select (starting_balances ws) (caller (base t))))]"

definition account_bound :: "world_state \<Rightarrow> account \<Rightarrow> constraint" where
  "account_bound ws a =
     Expr (UGE (BitVecVal 100000000000000000000 256) (Select (starting_balances ws) (address a)))"

text \<open>
  A hexadecimal payload: every character after the first two (the prefix 0x) is a
  hexadecimal digit. The inputs that \<open>_get_concrete_transaction\<close> produces from
  hexadecimal bytecode and call-data bytes are of this form.
\<close>

definition is_hex_char :: "char \<Rightarrow> bool" where
  "is_hex_char c = (hex_digit_value c \<noteq> None)"

definition hex_payload :: "string \<Rightarrow> bool" where
  "hex_payload s = list_all is_hex_char (drop 2 s)"

text \<open>
  Two concrete transactions are the same step when they agree on value, origin and
  address and on the first ten characters of the input (the prefix 0x and the function
  selector), the part the hash resolver never rewrites.
\<close>

definition same_step :: "concrete_transaction \<Rightarrow> concrete_transaction \<Rightarrow> bool" where
  "same_step a b =
     (tx_value a = tx_value b \<and> tx_origin a = tx_origin b \<and> tx_address a = tx_address b \<and>
      take 10 (tx_input a) = take 10 (tx_input b))"

text \<open>
  Parts of \<open>get_transaction_sequence\<close>, named to state its properties: the heap,
  the reference and the minimize list after the caller's constraints were copied and
  augmented; the code passed to the hash resolver; and the dictionary of the starting
  balances under the model.
\<close>

definition augmented :: "heap \<Rightarrow> global_state \<Rightarrow> nat \<Rightarrow> heap \<times> nat \<times> bitvec list" where
  "augmented h gs constraints =
     set_minimisation_constraints (snd (constraints_copy h constraints)) (transaction_sequence gs)
       (fst (constraints_copy h constraints)) [] 5000 (world_state gs)"

definition first_code :: "transaction \<Rightarrow> disassembly option" where
  "first_code t =
     (case t of ContractCreationTransaction b c \<Rightarrow> Some c | MessageCallTransaction b \<Rightarrow> None)"

definition min_prices :: "model \<Rightarrow> world_state \<Rightarrow> (int \<times> int) list" where
  "min_prices m ws =
     foldl (\<lambda>d addr. AList.update addr
                        (model_eval m (Select (starting_balances ws) (BitVecVal addr 256))) d)
           [] (map fst (accounts ws))"

subsection \<open>Concrete inputs\<close>

text \<open>
  The inputs of the concrete runs below. \<open>example_model\<close> gives every symbol and
  every array cell the value 0 and interprets no inverse hash function;
  \<open>rich_model\<close> gives every array cell the value \<open>10 ^ 23\<close>. The solver of
  \<open>candidate_env t\<close> tries \<open>example_model\<close> and answers sat when it satisfies
  the assertions, unknown otherwise, with \<open>t\<close> milliseconds of the budget left and a
  configured timeout of 10 s; the solver of \<open>refuting_env\<close> answers unsat.
\<close>

definition example_model :: model where
  "example_model = \<lparr>bitvec_interp = (\<lambda>_. 0), array_interp = (\<lambda>_ _. 0),
     inverse_interp = (\<lambda>_ _. None)\<rparr>"

definition rich_model :: model where
  "rich_model = \<lparr>bitvec_interp = (\<lambda>_. 0),
     array_interp = (\<lambda>_ _. 100000000000000000000000), inverse_interp = (\<lambda>_ _. None)\<rparr>"

definition candidate_env :: "int \<Rightarrow> solver_env" where
  "candidate_env t = \<lparr>solver_timeout = 10000, time_remaining = t,
     check = (\<lambda>s. if list_all (satisfies example_model) (assertions s) then sat else unknown),
     z3_model = (\<lambda>_. example_model)\<rparr>"

definition refuting_env :: solver_env where
  "refuting_env = \<lparr>solver_timeout = 10000, time_remaining = 100000,
     check = (\<lambda>_. unsat), z3_model = (\<lambda>_. example_model)\<rparr>"

text \<open>Two small constraints: \<open>x \<le> 5\<close> and \<open>0 > 1\<close>.\<close>

definition bound_constraint :: constraint where
  "bound_constraint = Expr (UGE (BitVecVal 5 256) (BitVecSym ''x'' 256))"

definition absurd_constraint :: constraint where
  "absurd_constraint = Expr (UGT (BitVecVal 0 256) (BitVecVal 1 256))"

text \<open>
  A world state with the accounts 1 and 2, a message call to account 1 with symbolic
  caller, value and call-data size and no call-data bytes, and a heap whose only
  constraint set, at reference 0, holds \<open>bound_constraint\<close>.
\<close>

definition example_account :: "int \<Rightarrow> account" where
  "example_account a =
     \<lparr>address = BitVecVal a 256, nonce = 0, code = \<lparr>bytecode = ''''\<rparr>, storage = ''{}''\<rparr>"

definition example_world_state :: world_state where
  "example_world_state =
     \<lparr>accounts = [(1, example_account 1), (2, example_account 2)],
      starting_balances = Array ''balance''\<rparr>"

definition example_call :: transaction where
  "example_call = MessageCallTransaction
     \<lparr>tx_world_state = example_world_state, callee_account = example_account 1,
      caller = BitVecSym ''sender'' 256,
      call_data = \<lparr>calldatasize = BitVecSym ''calldatasize'' 256, concrete = (\<lambda>m. [])\<rparr>,
      call_value = BitVecSym ''call_value'' 256\<rparr>"

definition example_heap :: heap where
  "example_heap = \<lparr>cells = (\<lambda>r. if r = 0 then [bound_constraint] else []), next_ref = 1\<rparr>"

text \<open>
  A registry with the single width 256 and the marker of seven f. Its forward hash is
  given at the one input the runs below hash, the 256-bit number 0, where it is the
  Keccak-256 digest of 32 zero bytes, \<open>zero_digest\<close>
  (0x290decd9548b62a8d60345a988386fc84ba6bc95484008f6362f93160ef3e563).
  \<open>zero_preimage_model\<close> interprets the inverse hash function of width 256 as the
  constant 0 and no other. \<open>call_with_input s\<close> is a concrete transaction with the
  input \<open>s\<close>.
\<close>

definition zero_digest :: int where
  "zero_digest = 18569430475105882587588266137607568536673111973893317399460219858819262702947"

definition example_registry :: keccak_function_manager where
  "example_registry = \<lparr>store_function = [256], hash_matcher = ''fffffff'',
     digest = (\<lambda>data. if data = BitVecVal 0 256 then zero_digest else 0)\<rparr>"

definition zero_preimage_model :: model where
  "zero_preimage_model = \<lparr>bitvec_interp = (\<lambda>_. 0), array_interp = (\<lambda>_ _. 0),
     inverse_interp = (\<lambda>w d. if w = 256 then Some 0 else None)\<rparr>"

definition call_with_input :: "string \<Rightarrow> concrete_transaction" where
  "call_with_input s = \<lparr>tx_input = s, tx_value = ''0x0'',
     tx_origin = ''0x0000000000000000000000000000000000000001'', tx_address = ''0x1''\<rparr>"

text \<open>
  A contract creation with the deployment bytecode 6080604052 and no constructor
  arguments, the global state whose sequence is that creation followed by
  \<open>example_call\<close>, and the one whose sequence is the creation alone.
\<close>

definition example_creation :: transaction where
  "example_creation = ContractCreationTransaction
     \<lparr>tx_world_state = example_world_state, callee_account = example_account 2,
      caller = BitVecSym ''sender'' 256,
      call_data = \<lparr>calldatasize = BitVecSym ''calldatasize'' 256, concrete = (\<lambda>m. [])\<rparr>,
      call_value = BitVecSym ''call_value'' 256\<rparr>
     \<lparr>bytecode = ''6080604052''\<rparr>"

definition example_global_state :: global_state where
  "example_global_state =
     \<lparr>world_state = example_world_state,
      transaction_sequence = [example_creation, example_call]\<rparr>"

definition creation_global_state :: global_state where
  "creation_global_state =
     \<lparr>world_state = example_world_state, transaction_sequence = [example_creation]\<rparr>"

text \<open>The result of the extraction on \<open>example_global_state\<close> in the runs below.\<close>

definition example_result :: transaction_sequence_result where
  "example_result =
     \<lparr>initialState =
        \<lparr>state_accounts =
           [(''0x1'', \<lparr>acc_nonce = 0, acc_code = '''', acc_storage = ''{}'',
                       acc_balance = ''0x0''\<rparr>),
            (''0x2'', \<lparr>acc_nonce = 0, acc_code = '''', acc_storage = ''{}'',
                       acc_balance = ''0x0''\<rparr>)]\<rparr>,
      steps =
        [\<lparr>tx_input = ''0x6080604052'', tx_value = ''0x0'',
          tx_origin = ''0x0000000000000000000000000000000000000000'', tx_address = ''''\<rparr>,
         \<lparr>tx_input = ''0x'', tx_value = ''0x0'',
          tx_origin = ''0x0000000000000000000000000000000000000000'',
          tx_address = ''0x1''\<rparr>]\<rparr>"

section \<open>Properties of get_model\<close>

lemma wrapped_false_literal:
  "PyBool False \<in> set cs \<Longrightarrow> get_model_wrapped env cs mn mx flag = (Inl UnsatError, None)"
  by (auto simp: get_model_wrapped_def Let_def list_ex_iff)

lemma wrapped_Inr_no_false:
  "get_model_wrapped env cs mn mx flag = (Inr m, so) \<Longrightarrow> PyBool False \<notin> set cs"
  using wrapped_false_literal by fastforce

lemma foldl_add_assertions: "assertions (foldl add s cs) = assertions s @ cs"
  by (induction cs arbitrary: s) (auto simp: add_def)

lemma foldl_minimize_assertions [simp]: "assertions (foldl minimize s es) = assertions s"
  by (induction es arbitrary: s) (auto simp: minimize_def)

lemma foldl_maximize_assertions [simp]: "assertions (foldl maximize s es) = assertions s"
  by (induction es arbitrary: s) (auto simp: maximize_def)

lemma foldl_add_timeout [simp]: "timeout (foldl add s cs) = timeout s"
  by (induction cs arbitrary: s) (auto simp: add_def)

lemma foldl_minimize_timeout [simp]: "timeout (foldl minimize s es) = timeout s"
  by (induction es arbitrary: s) (auto simp: minimize_def)

lemma foldl_maximize_timeout [simp]: "timeout (foldl maximize s es) = timeout s"
  by (induction es arbitrary: s) (auto simp: maximize_def)

lemma wrapped_session_assertions:
  "snd (get_model_wrapped env cs mn mx flag) = Some s \<Longrightarrow>
     assertions s = filter (\<lambda>c. \<not> is_PyBool c) cs"
  by (auto simp: get_model_wrapped_def Let_def foldl_add_assertions Optimize_def set_timeout_def
      split: if_splits)

lemma wrapped_session_timeout:
  "snd (get_model_wrapped env cs mn mx flag) = Some s \<Longrightarrow>
     timeout s = Some (if flag then min (solver_timeout env) (time_remaining env - 500)
                       else solver_timeout env)"
  by (auto simp: get_model_wrapped_def Let_def Optimize_def set_timeout_def split: if_splits)

lemma wrapped_budget_exhausted:
  "min (solver_timeout env) (time_remaining env - 500) \<le> 0 \<Longrightarrow>
     get_model_wrapped env cs mn mx True = (Inl UnsatError, None)"
  by (simp add: get_model_wrapped_def Let_def)

lemma wrapped_answer:
  "snd (get_model_wrapped env cs mn mx flag) = Some s \<Longrightarrow>
     fst (get_model_wrapped env cs mn mx flag) =
       (if check env s = sat then Inr (z3_model env s) else Inl UnsatError)"
  by (auto simp: get_model_wrapped_def Let_def split: if_splits)

lemma get_model_miss:
  "map_of (cache st) (cs, mn, mx, flag) = None \<Longrightarrow>
     fst (get_model env st cs mn mx flag) = fst (get_model_wrapped env cs mn mx flag) \<and>
     solver_log (snd (get_model env st cs mn mx flag)) =
       log_session (snd (get_model_wrapped env cs mn mx flag)) (solver_log st)"
  by (auto simp: get_model_def Let_def split: prod.splits sum.splits)

lemma get_model_hit:
  "map_of (cache st) (cs, mn, mx, flag) = Some m \<Longrightarrow>
     fst (get_model env st cs mn mx flag) = Inr m \<and>
     solver_log (snd (get_model env st cs mn mx flag)) = solver_log st"
  by (auto simp: get_model_def Let_def)

lemma get_model_log_cases:
  "solver_log (snd (get_model env st cs mn mx flag)) = solver_log st \<or>
   (\<exists>s. snd (get_model_wrapped env cs mn mx flag) = Some s \<and>
        map_of (cache st) (cs, mn, mx, flag) = None \<and>
        solver_log (snd (get_model env st cs mn mx flag)) = solver_log st @ [s])"
  by (cases "map_of (cache st) (cs, mn, mx, flag)";
      cases "snd (get_model_wrapped env cs mn mx flag)")
     (auto simp: get_model_hit get_model_miss log_session_def)

lemma get_model_submitted:
  assumes "solver_log (snd (get_model env st cs mn mx flag)) = solver_log st @ [s]"
  shows "snd (get_model_wrapped env cs mn mx flag) = Some s \<and>
         map_of (cache st) (cs, mn, mx, flag) = None"
  using get_model_log_cases [of env st cs mn mx flag] assms by auto

text \<open>
  Claim C5. Whenever a call of \<open>get_model\<close> hands a session to the solver: if the
  solver answers sat the call returns the solver's model; if it answers unknown the call
  fails with UnsatError, the very same value as for the answer unsat.
\<close>

theorem get_model_solver_answers:
  assumes "solver_log (snd (get_model env st cs mn mx flag)) = solver_log st @ [s]"
  shows "(check env s = sat \<longrightarrow> fst (get_model env st cs mn mx flag) = Inr (z3_model env s)) \<and>
         (check env s = unknown \<longrightarrow> fst (get_model env st cs mn mx flag) = Inl UnsatError) \<and>
         (check env s = unsat \<longrightarrow> fst (get_model env st cs mn mx flag) = Inl UnsatError)"
proof -
  from get_model_submitted [OF assms]
  have sub: "snd (get_model_wrapped env cs mn mx flag) = Some s"
    and miss: "map_of (cache st) (cs, mn, mx, flag) = None" by simp_all
  have "fst (get_model env st cs mn mx flag) =
      (if check env s = sat then Inr (z3_model env s) else Inl UnsatError)"
    using get_model_miss [OF miss, of env] wrapped_answer [OF sub] by simp
  then show ?thesis by simp
qed

lemma cache_keys_ok_step:
  assumes "cache_keys_ok st"
  shows "cache_keys_ok (snd (get_model env st cs mn mx flag))"
proof (cases "map_of (cache st) (cs, mn, mx, flag)")
  case None
  obtain r so where w: "get_model_wrapped env cs mn mx flag = (r, so)" by force
  show ?thesis
  proof (cases r)
    case (Inl e)
    with None w assms show ?thesis by (simp add: get_model_def cache_keys_ok_def)
  next
    case (Inr m)
    with w have "PyBool False \<notin> set cs" using wrapped_Inr_no_false by blast
    with None w Inr assms show ?thesis
      by (auto simp: get_model_def cache_keys_ok_def dest!: in_set_takeD)
  qed
next
  case (Some m)
  then have "((cs, mn, mx, flag), m) \<in> set (cache st)" by (rule map_of_SomeD)
  with Some assms show ?thesis
    by (auto simp: get_model_def cache_keys_ok_def Let_def)
qed

lemma reachable_cache_keys_ok: "reachable st \<Longrightarrow> cache_keys_ok st"
proof (induction rule: reachable.induct)
  case reachable_empty
  show ?case by (simp add: cache_keys_ok_def empty_state_def)
next
  case (reachable_call st env cs mn mx flag)
  then show ?case by (simp add: cache_keys_ok_step)
qed



subsection \<open>Claims about get_model\<close>


lemma first_call:
  "get_model (candidate_env 100000) empty_state [bound_constraint] [] [] True =
     (Inr example_model,
      \<lparr>cache = [(([bound_constraint], [], [], True), example_model)],
       solver_log = [\<lparr>timeout = Some 10000, assertions = [bound_constraint],
          minimize_objectives = [], maximize_objectives = []\<rparr>]\<rparr>)"
  by (simp add: get_model_def get_model_wrapped_def candidate_env_def empty_state_def
      bound_constraint_def example_model_def Optimize_def set_timeout_def add_def maxsize_def
      log_session_def)



text \<open>
  Counterexample to C3 as stated: with the flag enabled and 100 ms left, the computed
  timeout \<open>min 10000 (100 - 500)\<close> is not positive, yet the call returns the model
  cached by an earlier equal call instead of failing with UnsatError.
\<close>

theorem get_model_budget_counterexample:
  "min (solver_timeout (candidate_env 100)) (time_remaining (candidate_env 100) - 500) \<le> 0 \<and>
   fst (get_model (candidate_env 100)
      (snd (get_model (candidate_env 100000) empty_state [bound_constraint] [] [] True))
      [bound_constraint] [] [] True) = Inr example_model"
  by (simp add: first_call)
     (simp add: get_model_def candidate_env_def)

text \<open>
  Claim C3, as amended. For a call with the execution-time flag enabled that is not
  answered from the cache: the session handed to the solver has the timeout
  \<open>min solver_timeout (time_remaining - 500)\<close>, and when that number is at most
  zero the call fails with UnsatError and leaves the state, and so the solver log,
  as it was: the solver is not invoked.
\<close>

theorem get_model_effective_timeout:
  assumes "map_of (cache st) (cs, mn, mx, True) = None"
  shows "(solver_log (snd (get_model env st cs mn mx True)) = solver_log st @ [s] \<longrightarrow>
            timeout s = Some (min (solver_timeout env) (time_remaining env - 500))) \<and>
         (min (solver_timeout env) (time_remaining env - 500) \<le> 0 \<longrightarrow>
            get_model env st cs mn mx True = (Inl UnsatError, st))"
proof (intro conjI impI)
  assume "solver_log (snd (get_model env st cs mn mx True)) = solver_log st @ [s]"
  then have "snd (get_model_wrapped env cs mn mx True) = Some s"
    using get_model_submitted by blast
  then show "timeout s = Some (min (solver_timeout env) (time_remaining env - 500))"
    using wrapped_session_timeout by fastforce
next
  assume "min (solver_timeout env) (time_remaining env - 500) \<le> 0"
  then have "get_model_wrapped env cs mn mx True = (Inl UnsatError, None)"
    by (rule wrapped_budget_exhausted)
  with assms show "get_model env st cs mn mx True = (Inl UnsatError, st)"
    by (simp add: get_model_def log_session_def)
qed

text \<open>Witness for C3: both cases on the empty cache, with 100 ms and with 100 s left.\<close>

theorem get_model_effective_timeout_witness:
  "map_of (cache empty_state) ([bound_constraint], [], [], True) = None \<and>
   min (solver_timeout (candidate_env 100)) (time_remaining (candidate_env 100) - 500) \<le> 0 \<and>
   get_model (candidate_env 100) empty_state [bound_constraint] [] [] True
     = (Inl UnsatError, empty_state) \<and>
   solver_log (snd (get_model (candidate_env 100000) empty_state [bound_constraint] [] [] True)) =
     solver_log empty_state @ [\<lparr>timeout = Some 10000, assertions = [bound_constraint],
          minimize_objectives = [], maximize_objectives = []\<rparr>] \<and>
   min (solver_timeout (candidate_env 100000)) (time_remaining (candidate_env 100000) - 500) = 10000"
proof -
  have miss: "map_of (cache empty_state) ([bound_constraint], [], [], True) = None"
    by (simp add: empty_state_def)
  have low: "min (solver_timeout (candidate_env 100)) (time_remaining (candidate_env 100) - 500) \<le> 0"
    by (simp add: candidate_env_def)
  from get_model_effective_timeout [OF miss, of "candidate_env 100"] low
  have "get_model (candidate_env 100) empty_state [bound_constraint] [] [] True
     = (Inl UnsatError, empty_state)" by blast
  with miss low show ?thesis
    by (simp add: first_call) (simp add: empty_state_def candidate_env_def)
qed

text \<open>
  Claim C4. In every state that calls of \<open>get_model\<close> can reach from the empty
  cache, a call whose constraints contain the literal False fails with UnsatError and
  leaves the state unchanged, so the solver is not invoked; and whenever a call hands a
  session to the solver, its assertions are the constraints without the Python
  booleans, so no assertion is a boolean literal.
\<close>

theorem get_model_boolean_literals:
  assumes "reachable st"
  shows "(PyBool False \<in> set cs \<longrightarrow> get_model env st cs mn mx flag = (Inl UnsatError, st)) \<and>
         (solver_log (snd (get_model env st cs mn mx flag)) = solver_log st @ [s] \<longrightarrow>
            assertions s = filter (\<lambda>c. \<not> is_PyBool c) cs \<and>
            list_all (\<lambda>c. \<not> is_PyBool c) (assertions s))"
proof (intro conjI impI)
  assume f: "PyBool False \<in> set cs"
  have "map_of (cache st) (cs, mn, mx, flag) = None"
  proof (rule ccontr)
    assume "map_of (cache st) (cs, mn, mx, flag) \<noteq> None"
    then obtain m where "((cs, mn, mx, flag), m) \<in> set (cache st)"
      by (auto dest: map_of_SomeD)
    with reachable_cache_keys_ok [OF assms] f show False
      by (auto simp: cache_keys_ok_def)
  qed
  with wrapped_false_literal [OF f, of env mn mx flag]
  show "get_model env st cs mn mx flag = (Inl UnsatError, st)"
    by (simp add: get_model_def log_session_def)
next
  assume a: "solver_log (snd (get_model env st cs mn mx flag)) = solver_log st @ [s]"
  then have sub: "snd (get_model_wrapped env cs mn mx flag) = Some s"
    using get_model_submitted by blast
  from wrapped_session_assertions [OF sub]
  show "assertions s = filter (\<lambda>c. \<not> is_PyBool c) cs" .
  then show "list_all (\<lambda>c. \<not> is_PyBool c) (assertions s)"
    by (simp add: list_all_iff)
qed

text \<open>Witness for C4: a literal False after one cached call, and a literal True stripped.\<close>

theorem get_model_boolean_literals_witness:
  "reachable (snd (get_model (candidate_env 100000) empty_state [bound_constraint] [] [] True)) \<and>
   PyBool False \<in> set [PyBool True, bound_constraint, PyBool False] \<and>
   fst (get_model (candidate_env 100000)
      (snd (get_model (candidate_env 100000) empty_state [bound_constraint] [] [] True))
      [PyBool True, bound_constraint, PyBool False] [] [] False) = Inl UnsatError \<and>
   solver_log (snd (get_model (candidate_env 100000) empty_state
      [PyBool True, bound_constraint] [] [] True)) =
     solver_log empty_state @ [\<lparr>timeout = Some 10000, assertions = [bound_constraint],
          minimize_objectives = [], maximize_objectives = []\<rparr>]"
proof -
  have r: "reachable (snd (get_model (candidate_env 100000) empty_state [bound_constraint] [] [] True))"
    by (intro reachable.intros)
  have "get_model (candidate_env 100000)
      (snd (get_model (candidate_env 100000) empty_state [bound_constraint] [] [] True))
      [PyBool True, bound_constraint, PyBool False] [] [] False = 
     (Inl UnsatError, snd (get_model (candidate_env 100000) empty_state [bound_constraint] [] [] True))"
    using get_model_boolean_literals [OF r, of "[PyBool True, bound_constraint, PyBool False]"]
    by simp
  moreover have "solver_log (snd (get_model (candidate_env 100000) empty_state
      [PyBool True, bound_constraint] [] [] True)) =
     solver_log empty_state @ [\<lparr>timeout = Some 10000, assertions = [bound_constraint],
          minimize_objectives = [], maximize_objectives = []\<rparr>]"
    by (simp add: get_model_def get_model_wrapped_def candidate_env_def empty_state_def
      bound_constraint_def example_model_def Optimize_def set_timeout_def add_def maxsize_def
      log_session_def)
  ultimately show ?thesis using r by simp
qed

text \<open>Witness for C5: one call answered sat, one answered unknown.\<close>

theorem get_model_solver_answers_witness:
  "solver_log (snd (get_model (candidate_env 100000) empty_state [bound_constraint] [] [] True)) =
     solver_log empty_state @ [\<lparr>timeout = Some 10000, assertions = [bound_constraint],
          minimize_objectives = [], maximize_objectives = []\<rparr>] \<and>
   check (candidate_env 100000) \<lparr>timeout = Some 10000, assertions = [bound_constraint],
          minimize_objectives = [], maximize_objectives = []\<rparr> = sat \<and>
   fst (get_model (candidate_env 100000) empty_state [bound_constraint] [] [] True) =
     Inr example_model \<and>
   solver_log (snd (get_model (candidate_env 100000) empty_state [absurd_constraint] [] [] True)) =
     solver_log empty_state @ [\<lparr>timeout = Some 10000, assertions = [absurd_constraint],
          minimize_objectives = [], maximize_objectives = []\<rparr>] \<and>
   check (candidate_env 100000) \<lparr>timeout = Some 10000, assertions = [absurd_constraint],
          minimize_objectives = [], maximize_objectives = []\<rparr> = unknown \<and>
   fst (get_model (candidate_env 100000) empty_state [absurd_constraint] [] [] True) =
     Inl UnsatError"
proof -
  let ?s1 = "\<lparr>timeout = Some 10000, assertions = [bound_constraint],
          minimize_objectives = [], maximize_objectives = []\<rparr>"
  let ?s2 = "\<lparr>timeout = Some 10000, assertions = [absurd_constraint],
          minimize_objectives = [], maximize_objectives = []\<rparr>"
  have l1: "solver_log (snd (get_model (candidate_env 100000) empty_state [bound_constraint] [] [] True)) =
     solver_log empty_state @ [?s1]"
    by (simp add: first_call) (simp add: empty_state_def)
  have l2: "solver_log (snd (get_model (candidate_env 100000) empty_state [absurd_constraint] [] [] True)) =
     solver_log empty_state @ [?s2]"
    by (simp add: get_model_def get_model_wrapped_def candidate_env_def empty_state_def
      absurd_constraint_def example_model_def Optimize_def set_timeout_def add_def maxsize_def
      log_session_def)
  have c1: "check (candidate_env 100000) ?s1 = sat"
    by (simp add: candidate_env_def bound_constraint_def example_model_def)
  have c2: "check (candidate_env 100000) ?s2 = unknown"
    by (simp add: candidate_env_def absurd_constraint_def example_model_def)
  have z: "z3_model (candidate_env 100000) ?s1 = example_model"
    by (simp add: candidate_env_def)
  from get_model_solver_answers [OF l1] get_model_solver_answers [OF l2] l1 l2 c1 c2 z
  show ?thesis by simp
qed

section \<open>Properties of set_minimisation_constraints\<close>

lemma cells_append:
  "cells (constraints_append h r c) r' = (if r' = r then cells h r @ [c] else cells h r')"
  by (simp add: constraints_append_def)

lemma next_ref_append [simp]: "next_ref (constraints_append h r c) = next_ref h"
  by (simp add: constraints_append_def)

lemma minimisation_transactions_cells:
  "cells (fst (minimisation_transactions h r mn max_size ws txs)) r' =
     (if r' = r then cells h r @ concat (map (transaction_bounds max_size ws) txs)
      else cells h r')"
  by (induction txs arbitrary: h mn)
     (simp_all add: Let_def cells_append transaction_bounds_def)

lemma minimisation_transactions_next_ref:
  "next_ref (fst (minimisation_transactions h r mn max_size ws txs)) = next_ref h"
  by (induction txs arbitrary: h mn) (simp_all add: Let_def)

lemma minimisation_transactions_minimize:
  "snd (minimisation_transactions h r mn max_size ws txs) =
     mn @ concat (map (\<lambda>t. [calldatasize (call_data (base t)), call_value (base t)]) txs)"
  by (induction txs arbitrary: h mn) (simp_all add: Let_def)

lemma minimisation_accounts_cells:
  "cells (minimisation_accounts h r ws as) r' =
     (if r' = r then cells h r @ map (account_bound ws) as else cells h r')"
  by (induction as arbitrary: h) (simp_all add: Let_def cells_append account_bound_def)

lemma minimisation_accounts_next_ref:
  "next_ref (minimisation_accounts h r ws as) = next_ref h"
  by (induction as arbitrary: h) (simp_all add: Let_def)

lemma set_minimisation_constraints_result:
  "set_minimisation_constraints h txs r mn max_size ws = (h', r', mn') \<Longrightarrow>
     r' = r \<and>
     mn' = mn @ concat (map (\<lambda>t. [calldatasize (call_data (base t)), call_value (base t)]) txs) \<and>
     next_ref h' = next_ref h \<and>
     (\<forall>q. cells h' q =
        (if q = r then cells h r @ concat (map (transaction_bounds max_size ws) txs) @
                         map (account_bound ws) (map snd (accounts ws))
         else cells h q))"
  using minimisation_transactions_cells [of h r mn max_size ws txs]
    minimisation_transactions_minimize [of h r mn max_size ws txs]
    minimisation_transactions_next_ref [of h r mn max_size ws txs]
  by (auto simp: set_minimisation_constraints_def Let_def minimisation_accounts_cells
      minimisation_accounts_next_ref split: prod.splits)

lemma UGE_bound_iff:
  "satisfies m (Expr (UGE (BitVecVal 100000000000000000000 256) e)) =
     (model_eval m e \<le> 100000000000000000000)"
  by simp

lemma get_model_empty_sound:
  assumes "sound_solver env"
    and "get_model env empty_state cs mn mx flag = (Inr m, st')"
  shows "\<forall>c \<in> set cs. \<not> is_PyBool c \<longrightarrow> satisfies m c"
proof -
  obtain r so where w: "get_model_wrapped env cs mn mx flag = (r, so)" by force
  with assms(2) have r: "r = Inr m"
    by (cases r) (auto simp: get_model_def empty_state_def)
  from w r obtain s where s: "so = Some s" "check env s = sat" "m = z3_model env s"
    by (auto simp: get_model_wrapped_def Let_def split: if_splits)
  from w s have "assertions s = filter (\<lambda>c. \<not> is_PyBool c) cs"
    using wrapped_session_assertions [of env cs mn mx flag s] by simp
  with assms(1) s show ?thesis
    by (auto simp: sound_solver_def list_all_iff)
qed

text \<open>
  Claim C1, as amended: the bound is \<open>10 ^ 20\<close> (100 ETH in wei, the number in the
  code and in its comment), not \<open>10 ^ 23\<close>. For every account of the world state,
  referenced by a transaction or not, \<open>_set_minimisation_constraints\<close> leaves in the
  constraint set the constraint \<open>UGE (10 ^ 20) starting_balances[account.address]\<close>.
  That constraint holds under a model exactly when the balance is at most
  \<open>10 ^ 20\<close>, so a balance of exactly \<open>10 ^ 20\<close> is accepted and a larger one is
  not; and whenever a sound solver returns a model for the augmented constraints, every
  account's starting balance is at most \<open>10 ^ 20\<close> under it, so a constraint set that
  forces a balance above the bound fails with UnsatError.
\<close>

theorem set_minimisation_constraints_account_bound:
  assumes "set_minimisation_constraints h txs r mn max_size ws = (h', r', mn')"
  shows "(\<forall>a \<in> set (map snd (accounts ws)).
            Expr (UGE (BitVecVal 100000000000000000000 256)
                      (Select (starting_balances ws) (address a))) \<in> set (cells h' r')) \<and>
         (\<forall>m e. satisfies m (Expr (UGE (BitVecVal 100000000000000000000 256) e)) =
            (model_eval m e \<le> 100000000000000000000)) \<and>
         (\<forall>env m st'. sound_solver env \<longrightarrow>
            get_model env empty_state (cells h' r') mn' [] True = (Inr m, st') \<longrightarrow>
            (\<forall>a \<in> set (map snd (accounts ws)).
               model_eval m (Select (starting_balances ws) (address a))
                 \<le> 100000000000000000000))"
proof -
  from set_minimisation_constraints_result [OF assms]
  have r: "r' = r"
    and c: "cells h' r = cells h r @ concat (map (transaction_bounds max_size ws) txs) @
              map (account_bound ws) (map snd (accounts ws))"
    by simp_all
  have 1: "\<forall>a \<in> set (map snd (accounts ws)).
            Expr (UGE (BitVecVal 100000000000000000000 256)
                      (Select (starting_balances ws) (address a))) \<in> set (cells h' r')"
    using r c by (auto simp: account_bound_def)
  have 3: "\<forall>a \<in> set (map snd (accounts ws)).
               model_eval m (Select (starting_balances ws) (address a))
                 \<le> 100000000000000000000"
    if "sound_solver env" and "get_model env empty_state (cells h' r') mn' [] True = (Inr m, st')"
    for env m st'
  proof
    fix a assume a: "a \<in> set (map snd (accounts ws))"
    let ?c = "Expr (UGE (BitVecVal 100000000000000000000 256)
                      (Select (starting_balances ws) (address a)))"
    from 1 a have "?c \<in> set (cells h' r')" by blast
    with get_model_empty_sound [OF that] have "satisfies m ?c" by fastforce
    then show "model_eval m (Select (starting_balances ws) (address a))
                 \<le> 100000000000000000000"
      by simp
  qed
  from 1 3 show ?thesis by (intro conjI allI impI) (simp_all only: UGE_bound_iff, blast+)
qed

lemma example_minimisation:
  "set_minimisation_constraints example_heap [example_call] 0 [] 5000 example_world_state =
     (\<lparr>cells = (\<lambda>r. if r = 0 then
          [bound_constraint,
           Expr (UGE (BitVecVal 5000 256) (BitVecSym ''calldatasize'' 256)),
           Expr (UGE (BitVecVal 1000000000000000000000 256)
                     (Select (Array ''balance'') (BitVecSym ''sender'' 256))),
           Expr (UGE (BitVecVal 100000000000000000000 256)
                     (Select (Array ''balance'') (BitVecVal 1 256))),
           Expr (UGE (BitVecVal 100000000000000000000 256)
                     (Select (Array ''balance'') (BitVecVal 2 256)))]
          else []), next_ref = 1\<rparr>,
      0, [BitVecSym ''calldatasize'' 256, BitVecSym ''call_value'' 256])"
  by (simp add: set_minimisation_constraints_def example_heap_def example_call_def
      example_world_state_def example_account_def constraints_append_def Let_def fun_eq_iff)

lemma sound_candidate_env: "sound_solver (candidate_env t)"
  by (simp add: sound_solver_def candidate_env_def)

text \<open>
  Witness for C1: account 2 is referenced by no transaction; its bound is in the set,
  and the model returned for the augmented constraints respects it.
\<close>

theorem set_minimisation_constraints_account_bound_witness:
  "Expr (UGE (BitVecVal 100000000000000000000 256) (Select (Array ''balance'') (BitVecVal 2 256)))
     \<in> set (cells (fst (set_minimisation_constraints example_heap [example_call] 0 [] 5000
                          example_world_state)) 0) \<and>
   sound_solver (candidate_env 100000) \<and>
   fst (get_model (candidate_env 100000) empty_state
     (cells (fst (set_minimisation_constraints example_heap [example_call] 0 [] 5000
                          example_world_state)) 0)
     [BitVecSym ''calldatasize'' 256, BitVecSym ''call_value'' 256] [] True) = Inr example_model \<and>
   model_eval example_model (Select (Array ''balance'') (BitVecVal 2 256))
     \<le> 100000000000000000000"
proof -
  let ?cs = "[bound_constraint,
           Expr (UGE (BitVecVal 5000 256) (BitVecSym ''calldatasize'' 256)),
           Expr (UGE (BitVecVal 1000000000000000000000 256)
                     (Select (Array ''balance'') (BitVecSym ''sender'' 256))),
           Expr (UGE (BitVecVal 100000000000000000000 256)
                     (Select (Array ''balance'') (BitVecVal 1 256))),
           Expr (UGE (BitVecVal 100000000000000000000 256)
                     (Select (Array ''balance'') (BitVecVal 2 256)))]"
  let ?mn = "[BitVecSym ''calldatasize'' 256, BitVecSym ''call_value'' 256]"
  have g: "fst (get_model (candidate_env 100000) empty_state ?cs ?mn [] True) = Inr example_model"
    by (simp add: get_model_def get_model_wrapped_def candidate_env_def empty_state_def
      bound_constraint_def example_model_def Optimize_def set_timeout_def add_def minimize_def
      maxsize_def log_session_def)
  then obtain st' where g': "get_model (candidate_env 100000) empty_state ?cs ?mn [] True =
      (Inr example_model, st')"
    by (metis prod.collapse)
  have a: "example_account 2 \<in> set (map snd (accounts example_world_state))"
    by (simp add: example_world_state_def)
  from set_minimisation_constraints_account_bound [OF example_minimisation]
  have 1: "\<forall>a \<in> set (map snd (accounts example_world_state)).
            Expr (UGE (BitVecVal 100000000000000000000 256)
                      (Select (starting_balances example_world_state) (address a))) \<in> set ?cs"
    and 3: "\<forall>env m st'. sound_solver env \<longrightarrow>
            get_model env empty_state ?cs ?mn [] True = (Inr m, st') \<longrightarrow>
            (\<forall>a \<in> set (map snd (accounts example_world_state)).
               model_eval m (Select (starting_balances example_world_state) (address a))
                 \<le> 100000000000000000000)"
    by simp_all
  from 3 sound_candidate_env g' a
  have "model_eval example_model
          (Select (starting_balances example_world_state) (address (example_account 2)))
          \<le> 100000000000000000000"
    by blast
  then have "model_eval example_model (Select (Array ''balance'') (BitVecVal 2 256))
     \<le> 100000000000000000000"
    by (simp add: example_world_state_def example_account_def)
  with g sound_candidate_env show ?thesis
    by (simp add: example_minimisation)
qed

text \<open>
  Counterexample to C1 as stated: the constraints appended for the accounts bound the
  balances by \<open>10 ^ 20\<close>; a model in which account 1 starts with exactly
  \<open>10 ^ 23\<close> violates the appended constraint, so that balance is not accepted.
\<close>

theorem account_bound_counterexample:
  "cells (fst (set_minimisation_constraints example_heap [] 0 [] 5000 example_world_state)) 0 =
     [bound_constraint,
      Expr (UGE (BitVecVal 100000000000000000000 256) (Select (Array ''balance'') (BitVecVal 1 256))),
      Expr (UGE (BitVecVal 100000000000000000000 256) (Select (Array ''balance'') (BitVecVal 2 256)))] \<and>
   model_eval rich_model (Select (Array ''balance'') (BitVecVal 1 256)) = 10 ^ 23 \<and>
   \<not> satisfies rich_model
       (Expr (UGE (BitVecVal 100000000000000000000 256) (Select (Array ''balance'') (BitVecVal 1 256)))) \<and>
   \<not> list_all (satisfies rich_model)
       (cells (fst (set_minimisation_constraints example_heap [] 0 [] 5000 example_world_state)) 0)"
  by (simp add: set_minimisation_constraints_def example_heap_def
      example_world_state_def example_account_def constraints_append_def Let_def
      rich_model_def bound_constraint_def)

section \<open>Properties of the string operations\<close>

lemma hex_digit_value_hex_digit_all:
  "\<forall>d \<in> set [0..<16]. hex_digit_value (hex_digit d) = Some d"
  by code_simp

lemma hex_digit_value_hex_digit: "d < 16 \<Longrightarrow> hex_digit_value (hex_digit d) = Some d"
  using hex_digit_value_hex_digit_all by simp

lemma is_hex_char_hex_digit: "d < 16 \<Longrightarrow> is_hex_char (hex_digit d)"
  by (simp add: is_hex_char_def hex_digit_value_hex_digit)

lemma hex_digits_hex: "list_all is_hex_char (hex_digits n)"
proof (induction n rule: hex_digits.induct)
  case (1 n)
  show ?case
  proof (cases "n < 16")
    case True
    then show ?thesis by (subst hex_digits.simps) (simp add: is_hex_char_hex_digit)
  next
    case False
    with 1 show ?thesis by (subst hex_digits.simps) (simp add: is_hex_char_hex_digit)
  qed
qed

lemma int16_from_append:
  "int16_from acc (xs @ ys) =
     (case int16_from acc xs of Inl e \<Rightarrow> Inl e | Inr a \<Rightarrow> int16_from a ys)"
  by (induction xs arbitrary: acc) (auto split: option.splits)

lemma int16_from_hex_digits: "int16_from 0 (hex_digits n) = Inr (int n)"
proof (induction n rule: hex_digits.induct)
  case (1 n)
  show ?case
  proof (cases "n < 16")
    case True
    then show ?thesis by (subst hex_digits.simps) (simp add: hex_digit_value_hex_digit)
  next
    case False
    with 1 have "int16_from 0 (hex_digits (n div 16)) = Inr (int (n div 16))" by simp
    with False show ?thesis
      by (subst hex_digits.simps)
         (simp add: int16_from_append hex_digit_value_hex_digit zdiv_int zmod_int)
  qed
qed

lemma hex_digits_inj:
  assumes "hex_digits a = hex_digits b"
  shows "a = b"
proof -
  have "(Inr (int a) :: error + int) = int16_from 0 (hex_digits a)"
    by (simp only: int16_from_hex_digits)
  also have "\<dots> = int16_from 0 (hex_digits b)" by (simp only: assms)
  also have "\<dots> = Inr (int b)" by (simp only: int16_from_hex_digits)
  finally show ?thesis by simp
qed

lemma hex_digits_nonempty: "hex_digits n \<noteq> []"
  by (subst hex_digits.simps) simp

lemma hex_digits_no_x: "CHR ''x'' \<notin> set (hex_digits n)"
proof
  assume "CHR ''x'' \<in> set (hex_digits n)"
  with hex_digits_hex [of n] have "is_hex_char CHR ''x''" by (simp add: list_all_iff)
  then show False by (simp add: is_hex_char_def hex_digit_value_def)
qed

lemma hex_inj: "inj hex"
proof (rule injI)
  fix a b :: int
  assume e: "hex a = hex b"
  have neg: "hex i = ''-0x'' @ hex_digits (nat (- i))" if "i < 0" for i
    using that by (simp add: hex_def)
  have pos: "hex i = ''0x'' @ hex_digits (nat i)" if "\<not> i < 0" for i
    using that by (simp add: hex_def)
  show "a = b"
  proof (cases "a < 0"; cases "b < 0")
    assume "a < 0" "b < 0"
    with e neg have "hex_digits (nat (- a)) = hex_digits (nat (- b))" by simp
    then have "nat (- a) = nat (- b)" by (rule hex_digits_inj)
    with \<open>a < 0\<close> \<open>b < 0\<close> show ?thesis by simp
  next
    assume "a < 0" "\<not> b < 0"
    with e neg [of a] pos [of b] show ?thesis by simp
  next
    assume "\<not> a < 0" "b < 0"
    with e neg [of b] pos [of a] show ?thesis by simp
  next
    assume "\<not> a < 0" "\<not> b < 0"
    with e pos have "hex_digits (nat a) = hex_digits (nat b)" by simp
    then have "nat a = nat b" by (rule hex_digits_inj)
    with \<open>\<not> a < 0\<close> \<open>\<not> b < 0\<close> show ?thesis by simp
  qed
qed




lemma contains_iff: "contains sub s \<longleftrightarrow> (\<exists>a b. s = a @ sub @ b)"
proof (induction s)
  case Nil
  then show ?case by auto
next
  case (Cons c s)
  show ?case
  proof
    assume "contains sub (c # s)"
    then consider "prefix sub (c # s)" | "contains sub s" by auto
    then show "\<exists>a b. c # s = a @ sub @ b"
    proof cases
      case 1
      then obtain b where "c # s = sub @ b" by (auto simp: prefix_def)
      then have "c # s = [] @ sub @ b" by simp
      then show ?thesis by blast
    next
      case 2
      with Cons obtain a b where "s = a @ sub @ b" by blast
      then have "c # s = (c # a) @ sub @ b" by simp
      then show ?thesis by blast
    qed
  next
    assume "\<exists>a b. c # s = a @ sub @ b"
    then obtain a b where e: "c # s = a @ sub @ b" by blast
    show "contains sub (c # s)"
    proof (cases a)
      case Nil
      with e have "prefix sub (c # s)" by (simp add: prefix_def)
      then show ?thesis by simp
    next
      case (Cons x a')
      with e have "s = a' @ sub @ b" by simp
      with Cons.IH show ?thesis by auto
    qed
  qed
qed

section \<open>Properties of replace_with_actual_sha\<close>




lemma padded_digest_hex:
  assumes "0 \<le> k"
  shows "list_all is_hex_char (drop 2 (pad_hex_keccak (hex k)))"
proof -
  have h: "hex k = ''0x'' @ hex_digits (nat k)" using assms by (simp add: hex_def)
  have z: "is_hex_char CHR ''0''" by (simp add: is_hex_char_def hex_digit_value_def)
  show ?thesis
    using hex_digits_hex [of "nat k"] z by (auto simp: h list_all_iff pad_hex_keccak_def)
qed

lemma window_step_cases:
  assumes "window_step kfm m j si txs i = Inr txs'"
  shows "txs' = txs \<or>
         (\<exists>d. length (take 64 (drop i (tx_input (txs ! j)))) = 64 \<and> list_all is_hex_char d \<and>
              txs' = txs[j := (txs ! j)\<lparr>tx_input :=
                       take si (tx_input (txs ! j)) @
                       replace (take 64 (drop i (tx_input (txs ! j)))) d
                         (drop si (tx_input (txs ! j)))\<rparr>])"
proof (cases "txs' = txs")
  case True
  then show ?thesis by simp
next
  case False
  let ?inp = "tx_input (txs ! j)"
  from assms False obtain b k where
    len: "length (take 64 (drop i ?inp)) = 64" and
    k: "bv_value (find_concrete_keccak kfm b) = Some k" and
    t: "txs' = txs[j := (txs ! j)\<lparr>tx_input :=
                       take si ?inp @
                       replace (take 64 (drop i ?inp)) (drop 2 (pad_hex_keccak (hex k)))
                         (drop si ?inp)\<rparr>]"
    unfolding window_step_def Let_def
    by (auto split: if_splits sum.splits option.splits)
  from k have "0 \<le> k" by (auto simp: find_concrete_keccak_def)
  then have "list_all is_hex_char (drop 2 (pad_hex_keccak (hex k)))"
    by (rule padded_digest_hex)
  with len t show ?thesis by blast
qed


lemma take_prefix_append:
  assumes "10 \<le> si" "64 \<le> length s"
  shows "take 10 (take si s @ r) = take 10 s"
  using assms by (simp add: min_def)

lemma window_step_same:
  assumes "window_step kfm m j si txs i = Inr txs'" and "10 \<le> si"
  shows "list_all2 same_step txs txs'"
proof -
  have refl: "list_all2 same_step txs txs"
    by (simp add: list_all2_conv_all_nth same_step_def)
  from window_step_cases [OF assms(1)] show ?thesis
  proof
    assume "txs' = txs"
    with refl show ?thesis by simp
  next
    assume "\<exists>d. length (take 64 (drop i (tx_input (txs ! j)))) = 64 \<and> list_all is_hex_char d \<and>
              txs' = txs[j := (txs ! j)\<lparr>tx_input :=
                       take si (tx_input (txs ! j)) @
                       replace (take 64 (drop i (tx_input (txs ! j)))) d
                         (drop si (tx_input (txs ! j)))\<rparr>]"
    then obtain d where len: "length (take 64 (drop i (tx_input (txs ! j)))) = 64"
      and t: "txs' = txs[j := (txs ! j)\<lparr>tx_input :=
                       take si (tx_input (txs ! j)) @
                       replace (take 64 (drop i (tx_input (txs ! j)))) d
                         (drop si (tx_input (txs ! j)))\<rparr>]"
      by blast
    from len have "64 \<le> length (tx_input (txs ! j))" by simp
    with assms(2) have "same_step (txs ! j) ((txs ! j)\<lparr>tx_input :=
                       take si (tx_input (txs ! j)) @
                       replace (take 64 (drop i (tx_input (txs ! j)))) d
                         (drop si (tx_input (txs ! j)))\<rparr>)"
      by (simp add: same_step_def take_prefix_append)
    with refl have "list_all2 same_step (txs[j := txs ! j]) txs'"
      unfolding t by (rule list_all2_update_cong)
    then show ?thesis by simp
  qed
qed




lemma same_step_refl: "list_all2 same_step txs txs"
  by (simp add: list_all2_conv_all_nth same_step_def)

lemma same_step_trans:
  "list_all2 same_step a b \<Longrightarrow> list_all2 same_step b c \<Longrightarrow> list_all2 same_step a c"
proof -
  assume ab: "list_all2 same_step a b" and bc: "list_all2 same_step b c"
  have "same_step x y \<Longrightarrow> same_step y z \<Longrightarrow> same_step x z" for x y z
    by (simp add: same_step_def)
  from list_all2_trans [of same_step same_step same_step, OF this ab bc]
  show ?thesis .
qed


lemma start_index_ge: "10 \<le> start_index code_opt inp"
  by (simp add: start_index_def split: option.splits)

lemma windows_loop_same:
  "windows_loop kfm m j si txs ws = Inr txs' \<Longrightarrow> 10 \<le> si \<Longrightarrow> list_all2 same_step txs txs'"
proof (induction ws arbitrary: txs)
  case Nil
  then show ?case by (simp add: same_step_refl)
next
  case (Cons i ws)
  from Cons.prems(1) obtain t1 where s: "window_step kfm m j si txs i = Inr t1"
    and l: "windows_loop kfm m j si t1 ws = Inr txs'"
    by (auto split: sum.splits)
  from window_step_same [OF s Cons.prems(2)] Cons.IH [OF l Cons.prems(2)]
  show ?case by (rule same_step_trans)
qed


lemma transaction_step_same:
  "transaction_step kfm m code_opt txs j = Inr txs' \<Longrightarrow> list_all2 same_step txs txs'"
  by (auto simp: transaction_step_def Let_def same_step_refl start_index_ge
      split: if_splits intro: windows_loop_same)


lemma transactions_loop_same:
  "transactions_loop kfm m code_opt txs js = Inr txs' \<Longrightarrow> list_all2 same_step txs txs'"
proof (induction js arbitrary: txs)
  case Nil
  then show ?case by (simp add: same_step_refl)
next
  case (Cons j js)
  from Cons.prems obtain t1 where s: "transaction_step kfm m code_opt txs j = Inr t1"
    and l: "transactions_loop kfm m code_opt t1 js = Inr txs'"
    by (auto split: sum.splits)
  from transaction_step_same [OF s] Cons.IH [OF l] show ?case by (rule same_step_trans)
qed


lemma replace_with_actual_sha_same:
  "replace_with_actual_sha kfm txs m code_opt = Inr txs' \<Longrightarrow> list_all2 same_step txs txs'"
  unfolding replace_with_actual_sha_def by (rule transactions_loop_same)


text \<open>
  The inputs \<open>_get_concrete_transaction\<close> produces are hexadecimal payloads when the
  bytecode of a creation is written in hexadecimal digits and the bytes of the call
  data are not negative.
\<close>

lemma byte_hex_hex:
  assumes "0 \<le> b"
  shows "list_all is_hex_char (byte_hex b)"
proof -
  have h: "hex b = ''0x'' @ hex_digits (nat b)" using assms by (simp add: hex_def)
  have z: "is_hex_char CHR ''0''" by (simp add: is_hex_char_def hex_digit_value_def)
  show ?thesis using hex_digits_hex [of "nat b"] z by (simp add: byte_hex_def h)
qed

lemma get_concrete_transaction_hex_payload:
  assumes "get_concrete_transaction m t = Inr ct"
    and "case first_code t of None \<Rightarrow> True | Some c \<Rightarrow> list_all is_hex_char (bytecode c)"
    and "\<forall>b \<in> set (concrete (call_data (base t)) m). 0 \<le> b"
  shows "hex_payload (tx_input ct)"
proof -
  have d: "list_all is_hex_char (concat (map byte_hex (concrete (call_data (base t)) m)))"
    using assms(3) byte_hex_hex by (auto simp: list_all_iff)
  from assms(1,2) d show ?thesis
    by (cases t)
      (auto simp: get_concrete_transaction_def hex_payload_def first_code_def Let_def
        split: option.splits)
qed


lemmas resolver_eval =
  replace_with_actual_sha_def transaction_step_def start_index_def
      window_step_def range_step_def Let_def call_with_input_def example_registry_def
      zero_preimage_model_def zero_digest_def find_concrete_keccak_def pad_hex_keccak_def
      int16_def hex_digit_value_def hex_def hex_digits.simps hex_digit_def replace.simps
      upt_rec


text \<open>
  The resolver on a window of 64 f that occurs nowhere else: the window is replaced by
  the digest, and a second run leaves the result as it is.
\<close>

lemma marker_call_resolved:
  "replace_with_actual_sha example_registry
     [call_with_input ''0x00000000ffffffffffffffffffffffffffffffffffffffffffffffffffffffffffffffff'']
     zero_preimage_model None =
   Inr [call_with_input ''0x00000000290decd9548b62a8d60345a988386fc84ba6bc95484008f6362f93160ef3e563'']"
  by (simp add: resolver_eval)

lemma marker_call_resolved_again:
  "replace_with_actual_sha example_registry
     [call_with_input ''0x00000000290decd9548b62a8d60345a988386fc84ba6bc95484008f6362f93160ef3e563'']
     zero_preimage_model None =
   Inr [call_with_input ''0x00000000290decd9548b62a8d60345a988386fc84ba6bc95484008f6362f93160ef3e563'']"
  by (simp add: resolver_eval)

text \<open>
  Claim C9. The claim is that a second run of \<open>_replace_with_actual_sha\<close> on the
  result of a first run, with the same model and code, changes no input. The code does
  not keep it at the input below, of 138 characters. The scan starts at offset 10. The
  window at 10 has no marker; the window at 74 has one and is resolved to the digest.
  Lines 176 to 178 substitute with \<open>str.replace\<close> on the text from offset 10 on, and
  the 64 characters of the window also occur at offset 34, overlapping the window:
  \<open>replace\<close> rewrites that leftmost occurrence and not the window at 74. After the
  first run the window at 74 holds the tail of the digest followed by the old
  characters, marker included; the second run resolves it again and rewrites it, so the
  result of the second run differs from the result of the first.
\<close>

theorem replace_with_actual_sha_second_run_changes_input:
  "replace_with_actual_sha example_registry
     [call_with_input ''0x00000000000000000000000000000000fff000000000000000000000000000000000fffffff000000000000000000000000000000000fffffff000000000000000000000'']
     zero_preimage_model None =
   Inr [call_with_input ''0x00000000000000000000000000000000290decd9548b62a8d60345a988386fc84ba6bc95484008f6362f93160ef3e563000000000000fffffff000000000000000000000''] \<and>
   contains (hash_matcher example_registry)
     (take 64 (drop 74 ''0x00000000000000000000000000000000290decd9548b62a8d60345a988386fc84ba6bc95484008f6362f93160ef3e563000000000000fffffff000000000000000000000'')) \<and>
   replace_with_actual_sha example_registry
     [call_with_input ''0x00000000000000000000000000000000290decd9548b62a8d60345a988386fc84ba6bc95484008f6362f93160ef3e563000000000000fffffff000000000000000000000'']
     zero_preimage_model None =
   Inr [call_with_input ''0x00000000000000000000000000000000290decd9548b62a8d60345a988386fc84ba6bc95290decd9548b62a8d60345a988386fc84ba6bc95484008f6362f93160ef3e563'']"
  by (simp add: resolver_eval)

section \<open>Properties of get_transaction_sequence\<close>

lemma get_transaction_sequence_heap:
  "snd (snd (get_transaction_sequence kfm env st h gs c)) = fst (augmented h gs c)"
  unfolding get_transaction_sequence_def augmented_def Let_def
  by (auto split: prod.splits sum.splits list.splits)

lemma get_transaction_sequence_Inr:
  assumes "fst (get_transaction_sequence kfm env st h gs c) = Inr out"
  obtains m cts resolved where
    "fst (get_model env st (cells (fst (augmented h gs c)) (fst (snd (augmented h gs c))))
            (snd (snd (augmented h gs c))) [] True) = Inr m"
    "transaction_sequence gs \<noteq> []"
    "concrete_transactions_of m (transaction_sequence gs) = Inr cts"
    "replace_with_actual_sha kfm cts m (first_code (hd (transaction_sequence gs))) = Inr resolved"
    "out = \<lparr>initialState =
              get_concrete_state (accounts (tx_world_state (base (hd (transaction_sequence gs)))))
                (min_prices m (tx_world_state (base (hd (transaction_sequence gs))))),
            steps = resolved\<rparr>"
  using assms
  unfolding get_transaction_sequence_def augmented_def Let_def first_code_def min_prices_def
  by (auto split: prod.splits sum.splits list.splits)

lemma augmented_frame:
  assumes "r < next_ref h"
  shows "cells (fst (augmented h gs c)) r = cells h r"
proof -
  obtain h' r' mn' where a: "augmented h gs c = (h', r', mn')" by (cases "augmented h gs c")
  from set_minimisation_constraints_result [OF a [unfolded augmented_def]]
  have "r' = fst (constraints_copy h c)"
    and "\<forall>q. cells h' q = (if q = fst (constraints_copy h c)
            then cells (snd (constraints_copy h c)) (fst (constraints_copy h c)) @
                 concat (map (transaction_bounds 5000 (world_state gs)) (transaction_sequence gs)) @
                 map (account_bound (world_state gs)) (map snd (accounts (world_state gs)))
            else cells (snd (constraints_copy h c)) q)"
    by simp_all
  moreover have "fst (constraints_copy h c) = next_ref h" by (simp add: constraints_copy_def)
  moreover have "cells (snd (constraints_copy h c)) r = cells h r"
    using assms by (simp add: constraints_copy_def)
  ultimately show ?thesis using assms a by simp
qed

text \<open>
  Claim C10. \<open>get_transaction_sequence\<close> leaves the caller's constraint set as it
  was: for a reference the caller holds (one allocated before the call), the list at
  that reference is the same after the call as before, whether the call returns a result
  or fails (the theorem is about every outcome). The minimisation constraints go to the
  copy, a list at a new reference.
\<close>

theorem get_transaction_sequence_frame:
  assumes "constraints < next_ref h"
  shows "cells (snd (snd (get_transaction_sequence kfm env st h gs constraints))) constraints =
           cells h constraints"
  using augmented_frame [OF assms] by (simp add: get_transaction_sequence_heap)

lemma concrete_transactions_of_all2:
  "concrete_transactions_of m ts = Inr cts \<Longrightarrow>
     list_all2 (\<lambda>t ct. get_concrete_transaction m t = Inr ct) ts cts"
  by (induction ts arbitrary: cts) (auto split: sum.splits)

lemma get_concrete_state_keys:
  "fst ` set (state_accounts (get_concrete_state initial_accounts prices)) =
     hex ` fst ` set initial_accounts"
proof -
  have "fst ` set (foldl (\<lambda>accs (addr, acct). AList.update (hex addr) (f addr acct) accs)
                 acc xs) = fst ` set acc \<union> hex ` fst ` set xs"
    for f :: "int \<Rightarrow> account \<Rightarrow> concrete_account" and acc xs
  proof (induction xs arbitrary: acc)
    case Nil
    show ?case by simp
  next
    case (Cons x xs)
    obtain a b where x: "x = (a, b)" by (cases x)
    show ?case by (simp add: x Cons.IH AList.dom_update)
  qed
  from this [of _ "[]" initial_accounts] show ?thesis
    by (simp add: get_concrete_state_def)
qed

text \<open>
  Claim C6. When \<open>get_transaction_sequence\<close> returns a result: the sequence is not
  empty; the result has as many steps as the sequence has transactions; there is a model
  returned by \<open>get_model\<close> for the augmented constraints such that the step at each
  position is the concrete transaction of the symbolic transaction at that position
  (same value, origin, address and first ten characters of the input; the rest of the
  input is what the hash resolver made of it); and the keys of the emitted accounts are
  exactly the hexadecimal forms of the addresses of the accounts of the first
  transaction's world state, \<open>hex\<close> being injective.
\<close>

theorem get_transaction_sequence_order:
  assumes "fst (get_transaction_sequence kfm env st h gs constraints) = Inr out"
  shows "transaction_sequence gs \<noteq> [] \<and>
         length (steps out) = length (transaction_sequence gs) \<and>
         (\<exists>m. fst (get_model env st
                      (cells (fst (augmented h gs constraints))
                         (fst (snd (augmented h gs constraints))))
                      (snd (snd (augmented h gs constraints))) [] True) = Inr m \<and>
              list_all2 (\<lambda>t s. \<exists>ct. get_concrete_transaction m t = Inr ct \<and> same_step ct s)
                 (transaction_sequence gs) (steps out)) \<and>
         set (map fst (state_accounts (initialState out))) =
           hex ` set (map fst (accounts (tx_world_state (base (hd (transaction_sequence gs)))))) \<and>
         inj hex"
proof -
  from assms obtain m cts resolved where
    gm: "fst (get_model env st
                (cells (fst (augmented h gs constraints))
                   (fst (snd (augmented h gs constraints))))
                (snd (snd (augmented h gs constraints))) [] True) = Inr m" and
    ne: "transaction_sequence gs \<noteq> []" and
    cts: "concrete_transactions_of m (transaction_sequence gs) = Inr cts" and
    res: "replace_with_actual_sha kfm cts m (first_code (hd (transaction_sequence gs))) = Inr resolved" and
    out: "out = \<lparr>initialState =
              get_concrete_state (accounts (tx_world_state (base (hd (transaction_sequence gs)))))
                (min_prices m (tx_world_state (base (hd (transaction_sequence gs))))),
            steps = resolved\<rparr>"
    by (rule get_transaction_sequence_Inr)
  have a: "list_all2 (\<lambda>t ct. get_concrete_transaction m t = Inr ct) (transaction_sequence gs) cts"
    using cts by (rule concrete_transactions_of_all2)
  have b: "list_all2 same_step cts resolved"
    using res by (rule replace_with_actual_sha_same)
  have c: "list_all2 (\<lambda>t s. \<exists>ct. get_concrete_transaction m t = Inr ct \<and> same_step ct s)
                 (transaction_sequence gs) resolved"
    using list_all2_trans [of "\<lambda>t ct. get_concrete_transaction m t = Inr ct" same_step
        "\<lambda>t s. \<exists>ct. get_concrete_transaction m t = Inr ct \<and> same_step ct s", OF _ a b]
    by blast
  then have l: "length resolved = length (transaction_sequence gs)"
    by (simp add: list_all2_lengthD)
  from gm c have e: "\<exists>m. fst (get_model env st
                (cells (fst (augmented h gs constraints))
                   (fst (snd (augmented h gs constraints))))
                (snd (snd (augmented h gs constraints))) [] True) = Inr m \<and>
      list_all2 (\<lambda>t s. \<exists>ct. get_concrete_transaction m t = Inr ct \<and> same_step ct s)
        (transaction_sequence gs) resolved"
    by blast
  from ne l e show ?thesis
    by (simp add: out get_concrete_state_keys hex_inj)
qed

lemma contains_prefixed: "contains b (a @ b)"
  using contains_iff [of b "a @ b"] by (metis append_Nil2)

lemma range_step_empty: "stop \<le> start \<Longrightarrow> range_step start stop 64 = []"
  by (simp add: range_step_def)

lemma creation_without_arguments_unchanged:
  assumes "tx_input ct = ''0x'' @ bytecode c"
  shows "replace_with_actual_sha kfm [ct] m (Some c) = Inr [ct]"
proof -
  have "start_index (Some c) (tx_input ct) = length (bytecode c) + 10"
    using contains_prefixed [of "bytecode c" "''0x''"] by (simp add: start_index_def assms)
  moreover have "length (tx_input ct) \<le> length (bytecode c) + 10" by (simp add: assms)
  ultimately have "transaction_step kfm m (Some c) [ct] 0 = Inr [ct]"
    by (simp add: transaction_step_def Let_def range_step_empty)
  then show ?thesis by (simp add: replace_with_actual_sha_def)
qed

text \<open>
  Claim C7. The concrete transaction that \<open>_get_concrete_transaction\<close> emits for a
  contract creation has the empty string as address and the input 0x, then the
  deployment bytecode, then the bytes of the constructor arguments under the model, two
  hexadecimal digits each. And when the sequence is a single creation without
  constructor arguments and the extraction returns a result, the result has one step,
  with the empty address and the input 0x followed by exactly the bytecode.
\<close>

theorem creation_transaction_step:
  "(get_concrete_transaction m (ContractCreationTransaction b c) = Inr ct \<longrightarrow>
      tx_address ct = '''' \<and>
      tx_input ct = ''0x'' @ bytecode c @ concat (map byte_hex (concrete (call_data b) m))) \<and>
   (transaction_sequence gs = [ContractCreationTransaction b c] \<longrightarrow>
    (\<forall>m'. concrete (call_data b) m' = []) \<longrightarrow>
    fst (get_transaction_sequence kfm env st h gs constraints) = Inr out \<longrightarrow>
      length (steps out) = 1 \<and> tx_address (steps out ! 0) = '''' \<and>
      tx_input (steps out ! 0) = ''0x'' @ bytecode c)"
proof (rule conjI; intro impI)
  assume "get_concrete_transaction m (ContractCreationTransaction b c) = Inr ct"
  then show "tx_address ct = '''' \<and>
      tx_input ct = ''0x'' @ bytecode c @ concat (map byte_hex (concrete (call_data b) m))"
    by (auto simp: get_concrete_transaction_def Let_def split: option.splits)
next
  assume seq: "transaction_sequence gs = [ContractCreationTransaction b c]"
    and noargs: "\<forall>m'. concrete (call_data b) m' = []"
    and ok: "fst (get_transaction_sequence kfm env st h gs constraints) = Inr out"
  from ok obtain m' cts resolved where
    cts: "concrete_transactions_of m' (transaction_sequence gs) = Inr cts" and
    res: "replace_with_actual_sha kfm cts m' (first_code (hd (transaction_sequence gs))) = Inr resolved" and
    out: "steps out = resolved"
    by (rule get_transaction_sequence_Inr) simp
  from cts seq obtain ct' where
    ct: "get_concrete_transaction m' (ContractCreationTransaction b c) = Inr ct'"
    and c1: "cts = [ct']"
    by (auto split: sum.splits)
  from ct noargs have ad: "tx_address ct' = ''''" and inp: "tx_input ct' = ''0x'' @ bytecode c"
    by (auto simp: get_concrete_transaction_def Let_def split: option.splits)
  from res seq c1 creation_without_arguments_unchanged [OF inp, of kfm m']
  have "resolved = [ct']" by (simp add: first_code_def)
  with out ad inp
  show "length (steps out) = 1 \<and> tx_address (steps out ! 0) = '''' \<and>
      tx_input (steps out ! 0) = ''0x'' @ bytecode c"
    by simp
qed

subsection \<open>Concrete runs\<close>

lemmas extraction_eval =
  get_transaction_sequence_def constraints_copy_def set_minimisation_constraints_def
  constraints_append_def get_model_def get_model_wrapped_def Optimize_def set_timeout_def
  add_def minimize_def maximize_def maxsize_def log_session_def get_concrete_transaction_def
  get_concrete_state_def replace_with_actual_sha_def transaction_step_def Let_def
  format_x_def zfill_def hex_def hex_digits.simps hex_digit_def
  candidate_env_def empty_state_def example_heap_def example_world_state_def
  example_account_def example_call_def example_creation_def example_registry_def
  example_model_def bound_constraint_def 

lemma example_extraction:
  "fst (get_transaction_sequence example_registry (candidate_env 100000) empty_state
          example_heap example_global_state 0) = Inr example_result"
  by (simp add: extraction_eval example_global_state_def example_result_def)
     (simp add: eval_nat_numeral)

lemma creation_extraction:
  "fst (get_transaction_sequence example_registry (candidate_env 100000) empty_state
          example_heap creation_global_state 0) =
     Inr (example_result\<lparr>steps := [steps example_result ! 0]\<rparr>)"
  by (simp add: extraction_eval creation_global_state_def example_result_def)
     (simp add: eval_nat_numeral)

text \<open>
  Witness for C6: a creation followed by a call; two steps in that order, and the
  accounts 0x1 and 0x2.
\<close>

theorem get_transaction_sequence_order_witness:
  "fst (get_transaction_sequence example_registry (candidate_env 100000) empty_state
          example_heap example_global_state 0) = Inr example_result \<and>
   length (steps example_result) = length (transaction_sequence example_global_state) \<and>
   map tx_address (steps example_result) = ['''', ''0x1''] \<and>
   set (map fst (state_accounts (initialState example_result))) =
     hex ` set (map fst (accounts (tx_world_state (base (hd
       (transaction_sequence example_global_state)))))) \<and>
   map fst (state_accounts (initialState example_result)) = [''0x1'', ''0x2'']"
  using get_transaction_sequence_order [OF example_extraction] example_extraction
  by (simp add: example_result_def)

text \<open>
  Witness for C7: a creation with the bytecode 6080604052 and the constructor bytes
  0, 255 and 16, and the extraction on the creation without arguments alone.
\<close>

theorem creation_transaction_step_witness:
  "get_concrete_transaction example_model
     (ContractCreationTransaction
        \<lparr>tx_world_state = example_world_state, callee_account = example_account 2,
         caller = BitVecSym ''sender'' 256,
         call_data = \<lparr>calldatasize = BitVecSym ''calldatasize'' 256,
                      concrete = (\<lambda>m. [0, 255, 16])\<rparr>,
         call_value = BitVecSym ''call_value'' 256\<rparr>
        \<lparr>bytecode = ''6080604052''\<rparr>) =
     Inr \<lparr>tx_input = ''0x608060405200ff10'', tx_value = ''0x0'',
          tx_origin = ''0x0000000000000000000000000000000000000000'', tx_address = ''''\<rparr> \<and>
   transaction_sequence creation_global_state = [example_creation] \<and>
   fst (get_transaction_sequence example_registry (candidate_env 100000) empty_state
          example_heap creation_global_state 0) =
     Inr (example_result\<lparr>steps := [steps example_result ! 0]\<rparr>) \<and>
   length (steps (example_result\<lparr>steps := [steps example_result ! 0]\<rparr>)) = 1 \<and>
   tx_address (steps (example_result\<lparr>steps := [steps example_result ! 0]\<rparr>) ! 0) = '''' \<and>
   tx_input (steps (example_result\<lparr>steps := [steps example_result ! 0]\<rparr>) ! 0) =
     ''0x6080604052''"
proof -
  let ?b = "\<lparr>tx_world_state = example_world_state, callee_account = example_account 2,
         caller = BitVecSym ''sender'' 256,
         call_data = \<lparr>calldatasize = BitVecSym ''calldatasize'' 256, concrete = (\<lambda>m. [])\<rparr>,
         call_value = BitVecSym ''call_value'' 256\<rparr>"
  let ?ba = "\<lparr>tx_world_state = example_world_state, callee_account = example_account 2,
         caller = BitVecSym ''sender'' 256,
         call_data = \<lparr>calldatasize = BitVecSym ''calldatasize'' 256,
                      concrete = (\<lambda>m. [0, 255, 16])\<rparr>,
         call_value = BitVecSym ''call_value'' 256\<rparr>"
  let ?c = "\<lparr>bytecode = ''6080604052''\<rparr>"
  let ?ct = "\<lparr>tx_input = ''0x608060405200ff10'', tx_value = ''0x0'',
          tx_origin = ''0x0000000000000000000000000000000000000000'', tx_address = ''''\<rparr>"
  let ?out = "example_result\<lparr>steps := [steps example_result ! 0]\<rparr>"
  have g: "get_concrete_transaction example_model (ContractCreationTransaction ?ba ?c) = Inr ?ct"
    by (simp add: get_concrete_transaction_def example_account_def example_model_def Let_def
        format_x_def zfill_def hex_def hex_digits.simps hex_digit_def byte_hex_def)
       (simp add: eval_nat_numeral)
  have seq: "transaction_sequence creation_global_state = [ContractCreationTransaction ?b ?c]"
    by (simp add: creation_global_state_def example_creation_def)
  have noargs: "\<forall>m'. concrete (call_data ?b) m' = []" by simp
  from creation_transaction_step [where m = example_model and b = ?ba and c = ?c and ct = ?ct] g
  have 1: "tx_address ?ct = '''' \<and>
           tx_input ?ct = ''0x'' @ bytecode ?c @
             concat (map byte_hex (concrete (call_data ?ba) example_model))"
    by blast
  from creation_transaction_step [where b = ?b and c = ?c and gs = creation_global_state
      and kfm = example_registry and env = "candidate_env 100000" and st = empty_state
      and h = example_heap and constraints = 0 and out = ?out]
    seq noargs creation_extraction
  have 2: "length (steps ?out) = 1 \<and> tx_address (steps ?out ! 0) = '''' \<and>
        tx_input (steps ?out ! 0) = ''0x'' @ bytecode ?c"
    by blast
  from g 1 2 seq creation_extraction show ?thesis
    by (simp add: example_creation_def)
qed

text \<open>
  Witness for C10: the caller's set at reference 0 still holds its one constraint after
  a successful extraction and after one that fails with UnsatError.
\<close>

theorem get_transaction_sequence_frame_witness:
  "0 < next_ref example_heap \<and>
   cells (snd (snd (get_transaction_sequence example_registry (candidate_env 100000) empty_state
          example_heap example_global_state 0))) 0 = [bound_constraint] \<and>
   cells (snd (snd (get_transaction_sequence example_registry refuting_env empty_state
          example_heap example_global_state 0))) 0 = [bound_constraint] \<and>
   fst (get_transaction_sequence example_registry refuting_env empty_state
          example_heap example_global_state 0) = Inl UnsatError"
proof -
  have a: "0 < next_ref example_heap" by (simp add: example_heap_def)
  have c: "cells example_heap 0 = [bound_constraint]" by (simp add: example_heap_def)
  have u: "fst (get_transaction_sequence example_registry refuting_env empty_state
          example_heap example_global_state 0) = Inl UnsatError"
    by (simp add: get_transaction_sequence_def get_model_def get_model_wrapped_def
        refuting_env_def empty_state_def Let_def split: prod.splits)
  from get_transaction_sequence_frame [OF a, of example_registry "candidate_env 100000"
      empty_state example_global_state]
    get_transaction_sequence_frame [OF a, of example_registry refuting_env
      empty_state example_global_state] a c u
  show ?thesis by simp
qed


end
